theory Spec2Isabelle
  imports Complex_Main "HOL-Library.Word"
begin

section \<open>Errors and machine integers\<close>

text \<open>
  Every way a call of the modelled functions can end without a result.  The source
  raises \<open>std::runtime_error\<close> (named here after the taxonomy of the specification)
  and has places whose behaviour C++ leaves undefined (a division by zero, the
  dereference of a null pointer); each is a value of this type.
\<close>

datatype error =
    TypeMismatchError
  | InvalidShapeError
  | InvalidKernelShapeError
  | InvalidWorkSizeError
  | TruncatedFileError
  | AssertionFailed
  | DivisionByZero
  | NullDereference
  | BadArrayLength
  | HostBufferTooSmall

type_synonym u32 = "32 word"

text \<open>
  \<open>std::min<int32_t>(a, b)\<close> on two \<open>uint32_t\<close> arguments: both are read as signed
  32-bit values, \<open>std::min\<close> returns \<open>b\<close> when \<open>b < a\<close> and \<open>a\<close> otherwise, and the
  result is stored back into a \<open>uint32_t\<close> (the same bit pattern).
\<close>

definition min_int32 :: "u32 \<Rightarrow> u32 \<Rightarrow> u32" where
  "min_int32 a b = (if sint b < sint a then b else a)"

section \<open>Linear: the work partition of the threaded matrix-vector kernel\<close>

text \<open>
  The three device limits \<open>Linear::forwardProp\<close> queries
  (\<open>queryMaxWorkgroupSizeForCurKernel\<close>, \<open>getMaxWorkitemSize(dev, i)\<close>,
  \<open>getMaxWorkgroupSize\<close>), each a \<open>uint32_t\<close>.
\<close>

record device =
  queryMaxWorkgroupSizeForCurKernel :: u32
  getMaxWorkitemSize :: "nat \<Rightarrow> u32"
  getMaxWorkgroupSize :: u32

text \<open>
  The loop of lines 134-138 of \<open>linear.cpp\<close>.  The condition evaluates
  \<open>n_outputs_ % local_size[0]\<close> first, so a zero row factor is a division by zero.
  Products are \<open>uint32_t\<close> products and wrap.
\<close>

function shrink_local_size :: "u32 \<Rightarrow> u32 \<Rightarrow> u32 \<Rightarrow> u32 \<Rightarrow> error + u32" where
  "shrink_local_size n_outputs p max_worksize l =
     (if l = 0 then Inl DivisionByZero
      else if (n_outputs mod l \<noteq> 0 \<or> l * p > max_worksize) \<and> l > 1
      then shrink_local_size n_outputs p max_worksize (l - 1)
      else Inr l)"
  by pat_completeness auto
termination
  by (relation "measure (\<lambda>(n, p, mw, l). unat l)") (auto simp: unat_minus_one unat_gt_0)

text \<open>
  Lines 117-138: the column factor \<open>p\<close>, the global size \<open>{n_outputs_, p}\<close> and the
  local size \<open>{local_size[0], p}\<close> after the loop.  \<open>n_outputs_ / p\<close> with \<open>p = 0\<close> is a
  division by zero.  \<open>getMaxWorkgroupSize\<close> is taken to return a \<open>uint32_t\<close>, as the two
  other queries, whose results the source stores in \<open>uint32_t\<close> variables.
\<close>

definition work_partition :: "device \<Rightarrow> u32 \<Rightarrow> error + (u32 list \<times> u32 list)" where
  "work_partition dev n_outputs =
     (let max_worksize = queryMaxWorkgroupSizeForCurKernel dev;
          p = min_int32 16 (min_int32 (getMaxWorkitemSize dev 1) max_worksize)
      in if p = 0 then Inl DivisionByZero
         else case shrink_local_size n_outputs p max_worksize
                     (min_int32 (n_outputs div p + 1) (getMaxWorkgroupSize dev div p)) of
                Inl e \<Rightarrow> Inl e
              | Inr l \<Rightarrow> Inr ([n_outputs, p], [l, p]))"

text \<open>
  Modelled from the spec: the legality check of \<open>launch\<close> (the dispatcher is not among
  the sources).  A local size is legal when it has the dimensions of the global
  size, each local extent evenly divides the global extent of its dimension, no local
  extent exceeds the device's maximal work-item size of its dimension
  (\<open>maxWorkitemSize(dim)\<close>), and the product of the local extents exceeds neither the
  kernel's nor the device's maximal work-group size.  The product is the true product
  of the extents.
\<close>

definition divides_evenly :: "u32 \<Rightarrow> u32 \<Rightarrow> bool" where
  "divides_evenly g l = (0 < unat l \<and> unat g mod unat l = 0)"

definition legal_local_size :: "device \<Rightarrow> u32 list \<Rightarrow> u32 list \<Rightarrow> bool" where
  "legal_local_size dev global_size local_size =
     (list_all2 divides_evenly global_size local_size \<and>
      list_all (\<lambda>i. unat (local_size ! i) \<le> unat (getMaxWorkitemSize dev i))
        [0..<length local_size] \<and>
      prod_list (map unat local_size) \<le> unat (queryMaxWorkgroupSizeForCurKernel dev) \<and>
      prod_list (map unat local_size) \<le> unat (getMaxWorkgroupSize dev))"

definition launch_check :: "device \<Rightarrow> u32 list \<Rightarrow> u32 list \<Rightarrow> error + unit" where
  "launch_check dev global_size local_size =
     (if legal_local_size dev global_size local_size then Inr () else Inl InvalidWorkSizeError)"

subsection \<open>The heuristic in the words of the specification\<close>

text \<open>
  The specification's heuristic over the natural numbers: the column factor is the
  least of 16 and the two limits; the row factor starts at
  \<open>min (rows / p + 1) (deviceMax / p)\<close> and shrinks by one until it evenly divides the
  row count and the product of the factors is within the kernel's limit, or it is 1.
\<close>

definition spec_column_factor :: "nat \<Rightarrow> nat \<Rightarrow> nat" where
  "spec_column_factor max_item1 kernel_max = min 16 (min max_item1 kernel_max)"

function spec_shrink :: "nat \<Rightarrow> nat \<Rightarrow> nat \<Rightarrow> nat \<Rightarrow> nat" where
  "spec_shrink rows p kernel_max r =
     (if (\<not> r dvd rows \<or> kernel_max < r * p) \<and> 1 < r
      then spec_shrink rows p kernel_max (r - 1)
      else r)"
  by pat_completeness auto
termination
  by (relation "measure (\<lambda>(rows, p, kernel_max, r). r)") auto

definition spec_row_factor :: "nat \<Rightarrow> nat \<Rightarrow> nat \<Rightarrow> nat \<Rightarrow> nat" where
  "spec_row_factor rows p kernel_max device_max =
     spec_shrink rows p kernel_max (min (rows div p + 1) (device_max div p))"


section \<open>Linear: the stage\<close>

text \<open>
  The tensor of \<open>linear.cpp\<close>: \<open>dim()\<close> is the number of dimensions and \<open>size()\<close> the
  extents, so \<open>dim() = length (tsize t)\<close>.  \<open>storage\<close> is the identity of the device
  buffer: every allocation takes the next free identity, so two tensors share a buffer
  exactly when their \<open>storage\<close> is equal.  Elements are 32-bit floats in the source; the
  model computes with real numbers, so rounding is outside it.
\<close>

record Tensor =
  storage :: nat
  tsize :: "u32 list"
  data :: "real list"

text \<open>
  Modelled from the spec: the tensor constructor (\<open>tensor.h\<close> is not among the
  sources).  It allocates a zero-initialised buffer sized to the extents and fails
  with \<open>InvalidShapeError\<close> when the number of dimensions is outside 1..3 or an extent
  is zero.  The second component is the allocator: the next free buffer identity.
\<close>

definition Tensor_new :: "nat \<Rightarrow> u32 list \<Rightarrow> error + (Tensor \<times> nat)" where
  "Tensor_new heap sz =
     (if length sz < 1 \<or> 3 < length sz \<or> 0 \<in> set sz then Inl InvalidShapeError
      else Inr (\<lparr>storage = heap, tsize = sz, data = replicate (prod_list (map unat sz)) 0\<rparr>,
                Suc heap))"

text \<open>
  Modelled from the spec: \<open>setData(hostPtr)\<close> copies exactly element-count elements
  from the host buffer and rejects a host buffer that is smaller than the tensor.
\<close>

definition setData :: "Tensor \<Rightarrow> real list \<Rightarrow> error + Tensor" where
  "setData t host =
     (if length host < length (data t) then Inl HostBufferTooSmall
      else Inr (t\<lparr>data := take (length (data t)) host\<rparr>))"

datatype TorchData = TensorData Tensor | TableData "TorchData list"

text \<open>
  The stage.  Each field carries the name of the class before the member's name:
  \<open>Linear_output\<close> is the member \<open>output\<close> of the base class, a nullable pointer;
  \<open>Linear_weights\<close> and \<open>Linear_biases\<close> (the members \<open>weights_\<close> and \<open>biases_\<close>) are
  set by the constructor and never reset.
\<close>

record Linear =
  Linear_n_inputs :: u32
  Linear_n_outputs :: u32
  Linear_output :: "Tensor option"
  Linear_weights :: Tensor
  Linear_biases :: Tensor

text \<open>The constructor, lines 74-86: three allocations, \<open>output\<close> first.\<close>

definition Linear_new :: "u32 \<Rightarrow> u32 \<Rightarrow> nat \<Rightarrow> error + (Linear \<times> nat)" where
  "Linear_new n_inputs n_outputs heap =
     (case Tensor_new heap [n_outputs] of
        Inl e \<Rightarrow> Inl e
      | Inr (out, heap1) \<Rightarrow>
          (case Tensor_new heap1 [n_outputs, n_inputs] of
             Inl e \<Rightarrow> Inl e
           | Inr (w, heap2) \<Rightarrow>
               (case Tensor_new heap2 [n_outputs] of
                  Inl e \<Rightarrow> Inl e
                | Inr (b, heap3) \<Rightarrow>
                    Inr (\<lparr>Linear_n_inputs = n_inputs, Linear_n_outputs = n_outputs,
                          Linear_output = Some out, Linear_weights = w, Linear_biases = b\<rparr>, heap3))))"

definition setWeights :: "Linear \<Rightarrow> real list \<Rightarrow> error + Linear" where
  "setWeights s weights =
     (case setData (Linear_weights s) weights of Inl e \<Rightarrow> Inl e | Inr w \<Rightarrow> Inr (s\<lparr>Linear_weights := w\<rparr>))"

definition setBiases :: "Linear \<Rightarrow> real list \<Rightarrow> error + Linear" where
  "setBiases s biases =
     (case setData (Linear_biases s) biases of Inl e \<Rightarrow> Inl e | Inr b \<Rightarrow> Inr (s\<lparr>Linear_biases := b\<rparr>))"

text \<open>
  \<open>Linear::init\<close>, lines 94-101: two assertions and nothing else.  The result is the
  input seen as a tensor (\<open>TO_TENSOR_PTR\<close>), which \<open>forwardProp\<close> binds to the kernel.
\<close>

definition Linear_init :: "Linear \<Rightarrow> TorchData \<Rightarrow> error + Tensor" where
  "Linear_init s input =
     (case input of
        TableData _ \<Rightarrow> Inl AssertionFailed
      | TensorData t \<Rightarrow>
          if length (tsize t) = 1 \<and> tsize t ! 0 = Linear_n_inputs s then Inr t
          else Inl AssertionFailed)"

subsection \<open>The kernels of \<open>kLinearKernel\<close>\<close>

text \<open>
  \<open>MatVecMultThreads\<close>, one work-item: the strided loop of lines 42-45, started at
  \<open>k = get_global_id(COL_DIM)\<close> with \<open>stride = get_global_size(COL_DIM)\<close>.  A launched
  kernel has a positive global size; the guard \<open>0 < stride\<close> only says so.  The matrix
  is stored column major: element \<open>(row, k)\<close> is \<open>A[row + M * k]\<close>.
\<close>

function partial_dot ::
  "real list \<Rightarrow> real list \<Rightarrow> nat \<Rightarrow> nat \<Rightarrow> nat \<Rightarrow> nat \<Rightarrow> nat \<Rightarrow> real \<Rightarrow> real" where
  "partial_dot A X M N row stride k s =
     (if k < N \<and> 0 < stride
      then partial_dot A X M N row stride (k + stride) (s + A ! (row + M * k) * X ! k)
      else s)"
  by pat_completeness auto
termination
  by (relation "measure (\<lambda>(A, X, M, N, row, stride, k, s). N - k)") auto

text \<open>
  The local array \<open>work\<close> of work-group \<open>g\<close> (of \<open>rows\<close> by \<open>cols\<close> work-items) at the
  first barrier: work-item \<open>(ii, jj)\<close> has stored its partial sum at \<open>ii + rows * jj\<close>.
  There is one work-group along the columns, so the global column index is \<open>jj\<close> and
  the global column size is \<open>cols\<close>.
\<close>

definition work_stored ::
  "real list \<Rightarrow> real list \<Rightarrow> nat \<Rightarrow> nat \<Rightarrow> nat \<Rightarrow> nat \<Rightarrow> nat \<Rightarrow> real list" where
  "work_stored A X M N g rows cols =
     map (\<lambda>idx. partial_dot A X M N (g * rows + idx mod rows) cols (idx div rows) 0)
       [0..<rows * cols]"

text \<open>
  One round of the reduction, lines 55-59, with \<open>cols\<close> already halved: the work-items
  with \<open>jj < cols\<close> add the element \<open>cols\<close> columns further on.  They read only
  elements no work-item of the round writes, so the round is one simultaneous update.
\<close>

definition reduce_step :: "nat \<Rightarrow> nat \<Rightarrow> real list \<Rightarrow> real list" where
  "reduce_step rows cols work =
     map (\<lambda>idx. if idx div rows < cols then work ! idx + work ! (idx + rows * cols)
                 else work ! idx)
       [0..<length work]"

function reduce_loop :: "nat \<Rightarrow> nat \<Rightarrow> real list \<Rightarrow> real list" where
  "reduce_loop rows cols work =
     (if 1 < cols then reduce_loop rows (cols div 2) (reduce_step rows (cols div 2) work)
      else work)"
  by pat_completeness auto
termination
  by (relation "measure (\<lambda>(rows, cols, work). cols)") auto

text \<open>
  The vector \<open>Y\<close> after the launch over the global size \<open>{M, cols}\<close> with local size
  \<open>{rows, cols}\<close>: global row \<open>i\<close> is local row \<open>i mod rows\<close> of work-group \<open>i div rows\<close>,
  and its work-item of column 0 writes \<open>Y[i] = work[ii]\<close>.
\<close>

definition MatVecMultThreads ::
  "real list \<Rightarrow> real list \<Rightarrow> nat \<Rightarrow> nat \<Rightarrow> nat \<Rightarrow> nat \<Rightarrow> real list" where
  "MatVecMultThreads A X M N rows cols =
     map (\<lambda>i. reduce_loop rows cols (work_stored A X M N (i div rows) rows cols) ! (i mod rows))
       [0..<M]"

text \<open>\<open>Accum\<close>, lines 67-72: \<open>output[x_out] += biases[x_out]\<close> over the output.\<close>

definition Accum :: "real list \<Rightarrow> real list \<Rightarrow> real list" where
  "Accum out biases = map (\<lambda>x_out. out ! x_out + biases ! x_out) [0..<length out]"

text \<open>
  \<open>Linear::forwardProp\<close>, lines 103-159, the threaded path (\<open>SIMPLE_LINEAR\<close> is not
  defined): \<open>init\<close>, the partition, the launch of \<open>MatVecMultThreads\<close> with the local
  size, and the launch of \<open>Accum\<close> with no local size.  The casts \<open>(int)n_outputs_\<close> and
  \<open>(int)n_inputs_\<close> keep the value of every count below \<open>2^31\<close>; the kernels are given the
  counts as natural numbers.  Nothing is allocated: the call takes no allocator.
\<close>

definition Linear_forwardProp :: "device \<Rightarrow> Linear \<Rightarrow> TorchData \<Rightarrow> error + Linear" where
  "Linear_forwardProp dev s input =
     (case Linear_init s input of
        Inl e \<Rightarrow> Inl e
      | Inr t \<Rightarrow>
          (case work_partition dev (Linear_n_outputs s) of
             Inl e \<Rightarrow> Inl e
           | Inr (global_size, local_size) \<Rightarrow>
               (case Linear_output s of
                  None \<Rightarrow> Inl NullDereference
                | Some out \<Rightarrow>
                    (case launch_check dev global_size local_size of
                       Inl e \<Rightarrow> Inl e
                     | Inr _ \<Rightarrow>
                         Inr (s\<lparr>Linear_output := Some (out\<lparr>data :=
                                Accum (MatVecMultThreads (data (Linear_weights s)) (data t)
                                         (unat (Linear_n_outputs s)) (unat (Linear_n_inputs s))
                                         (unat (local_size ! 0)) (unat (local_size ! 1)))
                                      (data (Linear_biases s))\<rparr>)\<rparr>)))))"

text \<open>Any number of calls of \<open>forwardProp\<close> in a row; the first failure ends the run.\<close>

fun Linear_forwardProp_seq :: "device \<Rightarrow> Linear \<Rightarrow> TorchData list \<Rightarrow> error + Linear" where
  "Linear_forwardProp_seq dev s [] = Inr s"
| "Linear_forwardProp_seq dev s (x # xs) =
     (case Linear_forwardProp dev s x of
        Inl e \<Rightarrow> Inl e
      | Inr s' \<Rightarrow> Linear_forwardProp_seq dev s' xs)"

text \<open>
  The product \<open>W \<cdot> x + b\<close> of the specification, row by row, for the column-major
  matrix \<open>A\<close> of \<open>M\<close> rows and \<open>N\<close> columns.
\<close>

definition matvec_bias :: "real list \<Rightarrow> real list \<Rightarrow> real list \<Rightarrow> nat \<Rightarrow> nat \<Rightarrow> real list" where
  "matvec_bias A X B M N = map (\<lambda>i. (\<Sum>k<N. A ! (i + M * k) * X ! k) + B ! i) [0..<M]"

section \<open>SpatialDivisiveNormalization\<close>

text \<open>
  The tensor of \<open>spatial_divisive_normalization.cpp\<close>: here \<open>dim()\<close> is an \<open>Int3\<close>, the
  three extents.  \<open>buf\<close> is the identity of the device buffer, as \<open>storage\<close> above.
  C++ \<open>int\<close> extents are integers of the model; \<open>float\<close> elements are real numbers.
\<close>

type_synonym Int3 = "int \<times> int \<times> int"

definition Int3_equal :: "Int3 \<Rightarrow> Int3 \<Rightarrow> bool" where
  "Int3_equal a b =
     (fst a = fst b \<and> fst (snd a) = fst (snd b) \<and> snd (snd a) = snd (snd b))"

record FloatTensor =
  buf :: nat
  dims :: Int3
  vals :: "real list"

definition dataSize :: "FloatTensor \<Rightarrow> int" where
  "dataSize t = fst (dims t) * fst (snd (dims t)) * snd (snd (dims t))"

text \<open>
  Modelled from the spec: the constructor \<open>Tensor<float>(Int3)\<close>, \<open>clone\<close>, \<open>slowSum\<close>,
  \<open>div\<close> and \<open>setData\<close> of the tensor (\<open>tensor.h\<close> is not among the sources).  The
  constructor allocates a zero-initialised buffer and fails with \<open>InvalidShapeError\<close> on
  an extent that is not positive; \<open>clone\<close> returns a tensor of the same shape and
  contents with a buffer of its own; \<open>slowSum\<close> is the sum of the elements and \<open>div\<close>
  divides every element by a scalar; \<open>setData\<close> copies exactly element-count elements
  and rejects a smaller host buffer.
\<close>

definition FloatTensor_new :: "nat \<Rightarrow> Int3 \<Rightarrow> error + (FloatTensor \<times> nat)" where
  "FloatTensor_new heap d =
     (if fst d \<le> 0 \<or> fst (snd d) \<le> 0 \<or> snd (snd d) \<le> 0 then Inl InvalidShapeError
      else Inr (\<lparr>buf = heap, dims = d,
                 vals = replicate (nat (fst d * fst (snd d) * snd (snd d))) 0\<rparr>, Suc heap))"

definition clone :: "nat \<Rightarrow> FloatTensor \<Rightarrow> FloatTensor \<times> nat" where
  "clone heap t = (t\<lparr>buf := heap\<rparr>, Suc heap)"

definition slowSum :: "FloatTensor \<Rightarrow> real" where
  "slowSum t = sum_list (vals t)"

definition Tensor_div :: "FloatTensor \<Rightarrow> real \<Rightarrow> FloatTensor" where
  "Tensor_div t v = t\<lparr>vals := map (\<lambda>x. x / v) (vals t)\<rparr>"

definition FloatTensor_setData :: "FloatTensor \<Rightarrow> real list \<Rightarrow> error + FloatTensor" where
  "FloatTensor_setData t host =
     (if length host < length (vals t) then Inl HostBufferTooSmall
      else Inr (t\<lparr>vals := take (length (vals t)) host\<rparr>))"

datatype TorchData3 = FloatTensorData FloatTensor | TableData3 "TorchData3 list"

text \<open>C's \<open>%\<close> and \<open>/\<close> on \<open>int\<close>: the quotient is truncated towards zero.\<close>

definition c_div :: "int \<Rightarrow> int \<Rightarrow> int" where
  "c_div a b = sgn a * sgn b * (\<bar>a\<bar> div \<bar>b\<bar>)"

definition c_rem :: "int \<Rightarrow> int \<Rightarrow> int" where
  "c_rem a b = a - b * c_div a b"

text \<open>
  The stage: seven nullable tensor pointers and the threshold.  Each field carries the
  name of the class before the member's name (\<open>SDN_kernel\<close> is \<open>kernel_\<close>, \<open>SDN_std\<close> is
  \<open>std_\<close>, and so on); \<open>None\<close> is \<open>NULL\<close>.
\<close>

record SDN =
  SDN_output :: "FloatTensor option"
  SDN_kernel :: "FloatTensor option"
  SDN_kernel_norm :: "FloatTensor option"
  SDN_std_coef :: "FloatTensor option"
  SDN_std_pass1 :: "FloatTensor option"
  SDN_std_pass2 :: "FloatTensor option"
  SDN_std :: "FloatTensor option"
  SDN_threshold :: real

text \<open>The constructor, lines 19-37.  The second component is the allocator.\<close>

definition SDN_new :: "FloatTensor \<Rightarrow> real \<Rightarrow> nat \<Rightarrow> error + (SDN \<times> nat)" where
  "SDN_new kern threshold heap =
     (if c_rem (fst (dims kern)) 2 = 0 \<or> c_rem (fst (snd (dims kern))) 2 = 0 \<or>
         snd (snd (dims kern)) \<noteq> 1
      then Inl InvalidKernelShapeError
      else Inr (\<lparr>SDN_output = None, SDN_kernel = Some (fst (clone heap kern)),
                 SDN_kernel_norm = None, SDN_std_coef = None, SDN_std_pass1 = None,
                 SDN_std_pass2 = None, SDN_std = None, SDN_threshold = threshold\<rparr>,
                snd (clone heap kern)))"

subsection \<open>\<open>init\<close>, block by block\<close>

text \<open>
  Lines 55-66: when there is an output and its extents differ from the input's, all
  seven pointers are deleted and set to \<open>NULL\<close>, \<open>kernel_\<close> among them.
\<close>

definition init_release :: "FloatTensor \<Rightarrow> SDN \<Rightarrow> SDN" where
  "init_release inp s =
     (case SDN_output s of
        None \<Rightarrow> s
      | Some out \<Rightarrow>
          if \<not> Int3_equal (dims inp) (dims out)
          then s\<lparr>SDN_output := None, SDN_kernel := None, SDN_kernel_norm := None,
                 SDN_std_coef := None, SDN_std_pass1 := None, SDN_std_pass2 := None,
                 SDN_std := None\<rparr>
          else s)"

text \<open>Lines 67-74: without an output, three tensors of the input's extents are allocated.\<close>

definition init_output :: "FloatTensor \<Rightarrow> SDN \<times> nat \<Rightarrow> error + (SDN \<times> nat)" where
  "init_output inp st =
     (case SDN_output (fst st) of
        Some _ \<Rightarrow> Inr st
      | None \<Rightarrow>
          (case FloatTensor_new (snd st) (dims inp) of
             Inl e \<Rightarrow> Inl e
           | Inr (out, heap1) \<Rightarrow>
               (case FloatTensor_new heap1 (dims inp) of
                  Inl e \<Rightarrow> Inl e
                | Inr (p1, heap2) \<Rightarrow>
                    (case FloatTensor_new heap2 (dims inp) of
                       Inl e \<Rightarrow> Inl e
                     | Inr (p2, heap3) \<Rightarrow>
                         Inr ((fst st)\<lparr>SDN_output := Some out, SDN_std_pass1 := Some p1,
                                        SDN_std_pass2 := Some p2\<rparr>, heap3)))))"

text \<open>
  Lines 75-84: without a normalized kernel, \<open>kernel_\<close> is dereferenced, cloned, summed
  and divided by \<open>sum * sqrtf(n_feats)\<close> when its second extent is 1 and by
  \<open>sum * n_feats\<close> otherwise.
\<close>

definition init_kernel_norm :: "FloatTensor \<Rightarrow> SDN \<times> nat \<Rightarrow> error + (SDN \<times> nat)" where
  "init_kernel_norm inp st =
     (case SDN_kernel_norm (fst st) of
        Some _ \<Rightarrow> Inr st
      | None \<Rightarrow>
          (case SDN_kernel (fst st) of
             None \<Rightarrow> Inl NullDereference
           | Some k \<Rightarrow>
               (let onedim_kernel = (fst (snd (dims k)) = 1);
                    n_feats = real_of_int (snd (snd (dims inp)));
                    kn = fst (clone (snd st) k);
                    s = slowSum kn;
                    div_val = (if onedim_kernel then s * sqrt n_feats else s * n_feats)
                in Inr ((fst st)\<lparr>SDN_kernel_norm := Some (Tensor_div kn div_val)\<rparr>,
                        snd (clone (snd st) k)))))"

text \<open>
  Lines 101-147: an image of ones filtered with the normalized kernel, row by row
  (\<open>std_coef_cpu[v * width + u]\<close>).  The innermost loops add to \<open>tmp\<close> in the order of
  the source.
\<close>

definition coef_1d :: "real list \<Rightarrow> int \<Rightarrow> int \<Rightarrow> int \<Rightarrow> int \<Rightarrow> real list" where
  "coef_1d kernel_norm_cpu kernel_size width height n_feats =
     (let filt_rad = c_div (kernel_size - 1) 2 in
      concat (map (\<lambda>v. map (\<lambda>u.
        fold (\<lambda>v_filt. fold (\<lambda>u_filt tmp.
                if 0 \<le> u + u_filt \<and> u + u_filt < width \<and> 0 \<le> v + v_filt \<and> v + v_filt < height
                then tmp + kernel_norm_cpu ! nat (v_filt + filt_rad) *
                           kernel_norm_cpu ! nat (u_filt + filt_rad)
                else tmp) [- filt_rad..filt_rad]) [- filt_rad..filt_rad] 0
        / real_of_int n_feats) [0..width - 1]) [0..height - 1]))"

definition coef_2d :: "real list \<Rightarrow> int \<Rightarrow> int \<Rightarrow> int \<Rightarrow> int \<Rightarrow> int \<Rightarrow> real list" where
  "coef_2d kernel_norm_cpu kernel_size_u kernel_size_v width height n_feats =
     (let filt_rad_u = c_div (kernel_size_u - 1) 2;
          filt_rad_v = c_div (kernel_size_v - 1) 2 in
      concat (map (\<lambda>v. map (\<lambda>u.
        fold (\<lambda>v_filt. fold (\<lambda>u_filt tmp.
                if 0 \<le> u + u_filt \<and> u + u_filt < width \<and> 0 \<le> v + v_filt \<and> v + v_filt < height
                then tmp + kernel_norm_cpu !
                             nat ((v_filt + filt_rad_v) * kernel_size_u + (u_filt + filt_rad_u))
                else tmp) [- filt_rad_u..filt_rad_u]) [- filt_rad_v..filt_rad_v] 0
        / real_of_int n_feats) [0..width - 1]) [0..height - 1]))"

text \<open>
  Lines 85-151: without a coefficient tensor, one of extents \<open>(width, height, 1)\<close> is
  allocated and filled.  \<open>output\<close>, \<open>kernel_norm_\<close> and \<open>kernel_\<close> are dereferenced in
  this order.
\<close>

definition init_std_coef :: "SDN \<times> nat \<Rightarrow> error + (SDN \<times> nat)" where
  "init_std_coef st =
     (case SDN_std_coef (fst st) of
        Some _ \<Rightarrow> Inr st
      | None \<Rightarrow>
          (case SDN_output (fst st) of
             None \<Rightarrow> Inl NullDereference
           | Some out \<Rightarrow>
               (case FloatTensor_new (snd st) (fst (dims out), fst (snd (dims out)), 1) of
                  Inl e \<Rightarrow> Inl e
                | Inr (sc, heap1) \<Rightarrow>
                    (case SDN_kernel_norm (fst st) of
                       None \<Rightarrow> Inl NullDereference
                     | Some kn \<Rightarrow>
                         (case SDN_kernel (fst st) of
                            None \<Rightarrow> Inl NullDereference
                          | Some k \<Rightarrow>
                              (case FloatTensor_setData sc
                                      (if fst (snd (dims k)) = 1
                                       then coef_1d (vals kn) (fst (dims kn))
                                              (fst (dims out)) (fst (snd (dims out)))
                                              (snd (snd (dims out)))
                                       else coef_2d (vals kn) (fst (dims kn))
                                              (fst (snd (dims kn)))
                                              (fst (dims out)) (fst (snd (dims out)))
                                              (snd (snd (dims out)))) of
                                 Inl e \<Rightarrow> Inl e
                               | Inr sc' \<Rightarrow>
                                   Inr ((fst st)\<lparr>SDN_std_coef := Some sc'\<rparr>, heap1)))))))"

text \<open>Lines 152-159: without \<open>std_\<close>, one of extents \<open>(width, height, 1)\<close> is allocated.\<close>

definition init_std :: "SDN \<times> nat \<Rightarrow> error + (SDN \<times> nat)" where
  "init_std st =
     (case SDN_std (fst st) of
        Some _ \<Rightarrow> Inr st
      | None \<Rightarrow>
          (case SDN_output (fst st) of
             None \<Rightarrow> Inl NullDereference
           | Some out \<Rightarrow>
               (case FloatTensor_new (snd st) (fst (dims out), fst (snd (dims out)), 1) of
                  Inl e \<Rightarrow> Inl e
                | Inr (sd, heap1) \<Rightarrow> Inr ((fst st)\<lparr>SDN_std := Some sd\<rparr>, heap1))))"

text \<open>\<open>SpatialDivisiveNormalization::init\<close>, lines 49-160.\<close>

definition SDN_init :: "TorchData3 \<Rightarrow> SDN \<times> nat \<Rightarrow> error + (SDN \<times> nat)" where
  "SDN_init input st =
     (case input of
        TableData3 _ \<Rightarrow> Inl TypeMismatchError
      | FloatTensorData inp \<Rightarrow>
          (case init_output inp (init_release inp (fst st), snd st) of
             Inl e \<Rightarrow> Inl e
           | Inr st1 \<Rightarrow>
               (case init_kernel_norm inp st1 of
                  Inl e \<Rightarrow> Inl e
                | Inr st2 \<Rightarrow>
                    (case init_std_coef st2 of
                       Inl e \<Rightarrow> Inl e
                     | Inr st3 \<Rightarrow> init_std st3))))"

subsection \<open>\<open>forwardProp\<close>\<close>

text \<open>
  The five kernels of \<open>kernels/spatial_divisive_normalization.cl\<close>, which is not among
  the sources: each is a parameter, a function from the arguments bound to it (buffers
  as their contents, the written buffer's old contents last) and the launch extents
  to the new contents of the buffer it writes.
\<close>

record cl_kernels =
  SpatialDivisiveNormalizationHoriz ::
    "real list \<Rightarrow> real list \<Rightarrow> int \<Rightarrow> Int3 \<Rightarrow> real list \<Rightarrow> real list"
  SpatialDivisiveNormalizationVert ::
    "real list \<Rightarrow> real list \<Rightarrow> int \<Rightarrow> Int3 \<Rightarrow> real list \<Rightarrow> real list"
  SpatialDivisiveNormalization2D ::
    "real list \<Rightarrow> real list \<Rightarrow> int \<Rightarrow> int \<Rightarrow> Int3 \<Rightarrow> real list \<Rightarrow> real list"
  SpatialDivisiveNormalizationAccumDiv ::
    "real list \<Rightarrow> real list \<Rightarrow> int \<Rightarrow> real \<Rightarrow> Int3 \<Rightarrow> real list \<Rightarrow> real list"
  SpatialDivisiveNormalization ::
    "real list \<Rightarrow> real list \<Rightarrow> Int3 \<Rightarrow> real list \<Rightarrow> real list"

text \<open>
  Lines 164-217 after \<open>init\<close>: the launches write \<open>std_pass1_\<close>, \<open>std_pass2_\<close>, \<open>std_\<close>
  and \<open>output\<close> in place; no pointer is assigned.
\<close>

definition run_kernels :: "cl_kernels \<Rightarrow> FloatTensor \<Rightarrow> SDN \<Rightarrow> error + SDN" where
  "run_kernels cl inp s =
     (case (SDN_kernel s, SDN_kernel_norm s, SDN_output s) of
        (Some k, Some kn, Some out) \<Rightarrow>
          (case (SDN_std_pass1 s, SDN_std_pass2 s, SDN_std s, SDN_std_coef s) of
             (Some p1, Some p2, Some sd, Some sc) \<Rightarrow>
               (let p1' = (if fst (snd (dims k)) = 1
                           then p1\<lparr>vals := SpatialDivisiveNormalizationHoriz cl (vals inp) (vals kn)
                                   (c_div (fst (dims kn) - 1) 2) (dims p1) (vals p1)\<rparr>
                           else p1);
                    p2' = (if fst (snd (dims k)) = 1
                           then p2\<lparr>vals := SpatialDivisiveNormalizationVert cl (vals p1') (vals kn)
                                   (c_div (fst (dims kn) - 1) 2) (dims p2) (vals p2)\<rparr>
                           else p2\<lparr>vals := SpatialDivisiveNormalization2D cl (vals inp) (vals kn)
                                   (c_div (fst (dims kn) - 1) 2)
                                   (c_div (fst (snd (dims kn)) - 1) 2) (dims p2) (vals p2)\<rparr>);
                    sd' = sd\<lparr>vals := SpatialDivisiveNormalizationAccumDiv cl (vals p2') (vals sc)
                                   (snd (snd (dims out))) (SDN_threshold s) (dims sd) (vals sd)\<rparr>;
                    out' = out\<lparr>vals := SpatialDivisiveNormalization cl (vals inp) (vals sd')
                                   (dims out) (vals out)\<rparr>
                in Inr (s\<lparr>SDN_output := Some out', SDN_std_pass1 := Some p1',
                          SDN_std_pass2 := Some p2', SDN_std := Some sd'\<rparr>))
           | _ \<Rightarrow> Inl NullDereference)
      | _ \<Rightarrow> Inl NullDereference)"

definition SDN_forwardProp ::
  "cl_kernels \<Rightarrow> TorchData3 \<Rightarrow> SDN \<times> nat \<Rightarrow> error + (SDN \<times> nat)" where
  "SDN_forwardProp cl input st =
     (case SDN_init input st of
        Inl e \<Rightarrow> Inl e
      | Inr st1 \<Rightarrow>
          (case input of
             TableData3 _ \<Rightarrow> Inl TypeMismatchError
           | FloatTensorData inp \<Rightarrow>
               (case run_kernels cl inp (fst st1) of
                  Inl e \<Rightarrow> Inl e
                | Inr s' \<Rightarrow> Inr (s', snd st1))))"

text \<open>Any number of calls of \<open>forwardProp\<close> in a row; the first failure ends the run.\<close>

fun SDN_forwardProp_seq ::
  "cl_kernels \<Rightarrow> TorchData3 list \<Rightarrow> SDN \<times> nat \<Rightarrow> error + (SDN \<times> nat)" where
  "SDN_forwardProp_seq cl [] st = Inr st"
| "SDN_forwardProp_seq cl (x # xs) st =
     (case SDN_forwardProp cl x st of
        Inl e \<Rightarrow> Inl e
      | Inr st' \<Rightarrow> SDN_forwardProp_seq cl xs st')"

text \<open>
  The state \<open>Allocated(S)\<close> of the specification's state machine: the stage has an
  output of extents \<open>S\<close>, and none of its other six pointers is \<open>NULL\<close>.
\<close>

definition allocated_for :: "Int3 \<Rightarrow> SDN \<Rightarrow> bool" where
  "allocated_for S s =
     ((case SDN_output s of None \<Rightarrow> False | Some out \<Rightarrow> dims out = S) \<and>
      SDN_kernel s \<noteq> None \<and> SDN_kernel_norm s \<noteq> None \<and> SDN_std_coef s \<noteq> None \<and>
      SDN_std_pass1 s \<noteq> None \<and> SDN_std_pass2 s \<noteq> None \<and> SDN_std s \<noteq> None)"

section \<open>Loading a stage from a model file\<close>

text \<open>
  The input stream: the bytes not yet read and the fail state.  \<open>file.read(dest, n)\<close>
  on a stream that has failed stores nothing; otherwise it stores the next \<open>n\<close> bytes
  at the start of the destination, or, when fewer are left, stores those and sets the
  fail state.  It raises nothing.  The second argument of \<open>ifstream_read\<close> is the
  destination as it was before the call; the result is the destination after it.
\<close>

type_synonym u8 = "8 word"

record ifstream =
  content :: "u8 list"
  failbit :: bool

definition ifstream_read :: "ifstream \<Rightarrow> nat \<Rightarrow> u8 list \<Rightarrow> ifstream \<times> u8 list" where
  "ifstream_read file n dest =
     (if failbit file then (file, dest)
      else if n \<le> length (content file)
      then (file\<lparr>content := drop n (content file)\<rparr>, take n (content file) @ drop n dest)
      else (file\<lparr>content := [], failbit := True\<rparr>,
            content file @ drop (length (content file)) dest))"

text \<open>
  A local variable or a \<open>new[]\<close> array that has not been written holds indeterminate
  bytes: \<open>junk\<close>, a parameter of the loaders, gives the byte at each offset.
\<close>

definition uninit :: "(nat \<Rightarrow> u8) \<Rightarrow> nat \<Rightarrow> u8 list" where
  "uninit junk n = map junk [0..<n]"

text \<open>
  The \<open>int32_t\<close> that four bytes of memory hold on a little-endian host, and the
  \<open>float\<close>s an array of bytes holds, four bytes each.  The loaders move \<open>float\<close>s as
  bit patterns; \<open>f32\<close>, a parameter, is the value of a pattern.
\<close>

definition int32_of_bytes :: "u8 list \<Rightarrow> u32" where
  "int32_of_bytes bs = foldr (\<lambda>b w. of_nat (unat b) + 256 * w) bs 0"

fun floats_of_bytes :: "(u32 \<Rightarrow> real) \<Rightarrow> u8 list \<Rightarrow> real list" where
  "floats_of_bytes f32 (b0 # b1 # b2 # b3 # bs) =
     f32 (int32_of_bytes [b0, b1, b2, b3]) # floats_of_bytes f32 bs"
| "floats_of_bytes f32 bs = []"

text \<open>
  \<open>Linear::loadFromFile\<close>, lines 161-179.  No read is followed by a test of the stream.
  \<open>n_outputs * n_inputs\<close> is an \<open>int32_t\<close> product; \<open>new float[n]\<close> with a negative \<open>n\<close>
  raises.  The result holds the stage, the stream after the reads and the allocator.
\<close>

definition Linear_loadFromFile ::
  "(u32 \<Rightarrow> real) \<Rightarrow> (nat \<Rightarrow> u8) \<Rightarrow> ifstream \<Rightarrow> nat \<Rightarrow> error + (Linear \<times> ifstream \<times> nat)" where
  "Linear_loadFromFile f32 junk file heap =
     (let r1 = ifstream_read file 4 (uninit junk 4);
          n_outputs = int32_of_bytes (snd r1);
          r2 = ifstream_read (fst r1) 4 (uninit junk 4);
          n_inputs = int32_of_bytes (snd r2)
      in case Linear_new n_inputs n_outputs heap of
           Inl e \<Rightarrow> Inl e
         | Inr (ret, heap1) \<Rightarrow>
             (let n_weights = n_outputs * n_inputs in
              if sint n_weights < 0 then Inl BadArrayLength
              else
                (let r3 = ifstream_read (fst r2) (4 * unat n_weights)
                            (uninit junk (4 * unat n_weights))
                 in case setWeights ret (floats_of_bytes f32 (snd r3)) of
                      Inl e \<Rightarrow> Inl e
                    | Inr ret1 \<Rightarrow>
                        if sint n_outputs < 0 then Inl BadArrayLength
                        else
                          (let r4 = ifstream_read (fst r3) (4 * unat n_outputs)
                                      (uninit junk (4 * unat n_outputs))
                           in case setBiases ret1 (floats_of_bytes f32 (snd r4)) of
                                Inl e \<Rightarrow> Inl e
                              | Inr ret2 \<Rightarrow> Inr (ret2, fst r4, heap1)))))"

text \<open>
  \<open>SpatialDivisiveNormalization::loadFromFile\<close>, lines 219-242.  Modelled from the
  spec: the constructors \<open>Tensor<float>(Int2(a, b))\<close> and \<open>Tensor<float>(a)\<close> give
  tensors of extents \<open>(a, b, 1)\<close> and \<open>(a, 1, 1)\<close>.
\<close>

definition SDN_loadFromFile ::
  "(u32 \<Rightarrow> real) \<Rightarrow> (nat \<Rightarrow> u8) \<Rightarrow> ifstream \<Rightarrow> nat \<Rightarrow> error + (SDN \<times> ifstream \<times> nat)" where
  "SDN_loadFromFile f32 junk file heap =
     (let r1 = ifstream_read file 4 (uninit junk 4);
          kernel_size_1 = sint (int32_of_bytes (snd r1));
          r2 = ifstream_read (fst r1) 4 (uninit junk 4);
          kernel_size_2 = sint (int32_of_bytes (snd r2))
      in case FloatTensor_new heap
                (if 1 < kernel_size_2 then (kernel_size_1, kernel_size_2, 1)
                 else (kernel_size_1, 1, 1)) of
           Inl e \<Rightarrow> Inl e
         | Inr (kern, heap1) \<Rightarrow>
             (let r3 = ifstream_read (fst r2) (4 * nat (dataSize kern))
                         (uninit junk (4 * nat (dataSize kern)))
              in case FloatTensor_setData kern (floats_of_bytes f32 (snd r3)) of
                   Inl e \<Rightarrow> Inl e
                 | Inr kern' \<Rightarrow>
                     (let r4 = ifstream_read (fst r3) 4 (uninit junk 4);
                          threshold = f32 (int32_of_bytes (snd r4))
                      in case SDN_new kern' threshold heap1 of
                           Inl e \<Rightarrow> Inl e
                         | Inr (ret, heap2) \<Rightarrow> Inr (ret, fst r4, heap2))))"

section \<open>Concrete inputs\<close>

text \<open>
  The inputs at which the theorems below are instantiated: a separable kernel of three
  taps, a full kernel of three by three, inputs of two shapes, a device program that
  leaves every buffer as it is, and sets of device limits: an ordinary one, one with a
  device limit below the kernel's, one whose work-item limits are \<open>2^31\<close>, one whose
  work-item limits are 16 under work-group limits of 1024, and one whose work-item
  limits are 3.
\<close>

definition kernel_3 :: FloatTensor where
  "kernel_3 = \<lparr>buf = 0, dims = (3, 1, 1), vals = [1, 2, 1]\<rparr>"

definition kernel_3x3 :: FloatTensor where
  "kernel_3x3 = \<lparr>buf = 0, dims = (3, 3, 1), vals = [1, 1, 1, 1, 2, 1, 1, 1, 1]\<rparr>"

definition image_2x2 :: FloatTensor where
  "image_2x2 = \<lparr>buf = 1, dims = (2, 2, 1), vals = [1, 2, 3, 4]\<rparr>"

definition image_2x2' :: FloatTensor where
  "image_2x2' = \<lparr>buf = 2, dims = (2, 2, 1), vals = [5, 6, 7, 8]\<rparr>"

definition image_3x2 :: FloatTensor where
  "image_3x2 = \<lparr>buf = 3, dims = (3, 2, 1), vals = [1, 2, 3, 4, 5, 6]\<rparr>"

definition image_1x1x4 :: FloatTensor where
  "image_1x1x4 = \<lparr>buf = 4, dims = (1, 1, 4), vals = [1, 2, 3, 4]\<rparr>"

definition idle_kernels :: cl_kernels where
  "idle_kernels =
     \<lparr>SpatialDivisiveNormalizationHoriz = (\<lambda>src k r d old. old),
      SpatialDivisiveNormalizationVert = (\<lambda>src k r d old. old),
      SpatialDivisiveNormalization2D = (\<lambda>src k ru rv d old. old),
      SpatialDivisiveNormalizationAccumDiv = (\<lambda>src coef n t d old. old),
      SpatialDivisiveNormalization = (\<lambda>src sd d old. old)\<rparr>"

definition device_256 :: device where
  "device_256 = \<lparr>queryMaxWorkgroupSizeForCurKernel = 256,
                  getMaxWorkitemSize = (\<lambda>i. 1024), getMaxWorkgroupSize = 1024\<rparr>"


definition device_wide :: device where
  "device_wide = \<lparr>queryMaxWorkgroupSizeForCurKernel = 256,
                   getMaxWorkitemSize = (\<lambda>i. 2147483648), getMaxWorkgroupSize = 1024\<rparr>"


definition device_3 :: device where
  "device_3 = \<lparr>queryMaxWorkgroupSizeForCurKernel = 1024,
                getMaxWorkitemSize = (\<lambda>i. 3), getMaxWorkgroupSize = 1024\<rparr>"

text \<open>
  A model file cut off after its header: one output, one input, and none of the
  eight bytes of weights and biases the header declares.
\<close>

definition truncated_file :: ifstream where
  "truncated_file = \<lparr>content = [1, 0, 0, 0, 1, 0, 0, 0], failbit = False\<rparr>"

text \<open>
  A complete model file of a Linear stage of two outputs and one input, followed by
  one byte of the next record, and a complete file of a normalization stage with a
  separable kernel of one tap.
\<close>

definition linear_file :: ifstream where
  "linear_file =
     \<lparr>content = [2, 0, 0, 0, 1, 0, 0, 0,
                 5, 0, 0, 0, 6, 0, 0, 0,
                 7, 0, 0, 0, 8, 0, 0, 0, 9], failbit = False\<rparr>"

definition sdn_file :: ifstream where
  "sdn_file =
     \<lparr>content = [1, 0, 0, 0, 1, 0, 0, 0, 3, 0, 0, 0, 4, 0, 0, 0], failbit = False\<rparr>"

definition sdn_file_truncated :: ifstream where
  "sdn_file_truncated = \<lparr>content = [1, 0, 0, 0, 1, 0, 0, 0, 3, 0], failbit = False\<rparr>"

text \<open>An input vector of three ones for a Linear stage of three inputs.\<close>

definition ones_3 :: Tensor where
  "ones_3 = \<lparr>storage = 9, tsize = [3], data = [1, 1, 1]\<rparr>"

text \<open>
  For the loaders: unwritten memory that holds zero bytes, and a reading of a bit
  pattern as a number (its unsigned value).
\<close>

definition zero_bytes :: "nat \<Rightarrow> u8" where
  "zero_bytes i = 0"

definition pattern_value :: "u32 \<Rightarrow> real" where
  "pattern_value w = real (unat w)"


section \<open>Properties of the work partition\<close>

declare shrink_local_size.simps [simp del]
declare spec_shrink.simps [simp del]

lemma sint_small:
  assumes a: "unat (x::u32) < 2147483648" shows "sint x = int (unat x)"
proof -
  have "int (unat x) < 2147483648" using a by linarith
  then have b: "uint x < 2 ^ 31" by simp
  have c: "- (2 ^ 31) \<le> uint x" by (rule order_trans [of _ 0]) simp_all
  have "signed_take_bit 31 (uint x) = uint x"
    using c b by (rule signed_take_bit_int_eq_self)
  then show ?thesis by (simp add: sint_uint)
qed

lemma min_int32_small:
  "unat a < 2147483648 \<Longrightarrow> unat b < 2147483648 \<Longrightarrow> unat (min_int32 a b) = min (unat a) (unat b)"
  unfolding min_int32_def by (simp only: sint_small of_nat_less_iff split: if_splits) simp

lemma unat_u32_bound: "unat (x::u32) < 4294967296"
  using unsigned_less [of x, where 'a = nat] by simp

lemma shrink_refines:
  "l \<noteq> 0 \<Longrightarrow> unat l * unat p < 4294967296 \<Longrightarrow>
   shrink_local_size n p mw l = Inr (of_nat (spec_shrink (unat n) (unat p) (unat mw) (unat l)))"
proof (induction n p mw l rule: shrink_local_size.induct)
  case (1 n p mw l)
  have lp: "unat (l * p) = unat l * unat p"
    using "1.prems"(2) unat_mult_lem [of l p] by simp
  have dv: "(n mod l \<noteq> 0) = (\<not> unat l dvd unat n)"
    by (metis unat_mod unat_eq_zero mod_eq_0_iff_dvd)
  have gt: "(l * p > mw) = (unat mw < unat l * unat p)"
    by (simp add: word_less_nat_alt lp)
  have one: "(l > 1) = (1 < unat l)"
    by (simp add: word_less_nat_alt)
  show ?case
  proof (cases "(n mod l \<noteq> 0 \<or> l * p > mw) \<and> l > 1")
    case True
    then have l1: "l - 1 \<noteq> 0" using one by (metis less_irrefl right_minus_eq)
    have ul: "unat (l - 1) = unat l - 1" using "1.prems"(1) by (rule unat_minus_one)
    have "unat (l - 1) * unat p \<le> unat l * unat p" by (simp add: ul)
    then have sm: "unat (l - 1) * unat p < 4294967296" using "1.prems"(2) by linarith
    have "shrink_local_size n p mw l = shrink_local_size n p mw (l - 1)"
      using True "1.prems"(1) by (subst shrink_local_size.simps) simp
    also have "\<dots> = Inr (of_nat (spec_shrink (unat n) (unat p) (unat mw) (unat (l - 1))))"
      using "1.IH" [OF "1.prems"(1) True l1 sm] .
    also have "spec_shrink (unat n) (unat p) (unat mw) (unat (l - 1)) =
               spec_shrink (unat n) (unat p) (unat mw) (unat l)"
      using True dv gt one ul by (subst (2) spec_shrink.simps) simp
    finally show ?thesis .
  next
    case False
    have a: "shrink_local_size n p mw l = Inr l"
      using False "1.prems"(1) by (subst shrink_local_size.simps) auto
    have "spec_shrink (unat n) (unat p) (unat mw) (unat l) = unat l"
      using False dv gt one by (subst spec_shrink.simps) auto
    then show ?thesis using a by simp
  qed
qed


lemma spec_shrink_legal:
  "1 \<le> r \<Longrightarrow> 1 \<le> p \<Longrightarrow> p \<le> kernel_max \<Longrightarrow>
   1 \<le> spec_shrink rows p kernel_max r \<and> spec_shrink rows p kernel_max r \<le> r \<and>
   spec_shrink rows p kernel_max r dvd rows \<and> spec_shrink rows p kernel_max r * p \<le> kernel_max"
proof (induction rows p kernel_max r rule: spec_shrink.induct)
  case (1 rows p kernel_max r)
  show ?case
  proof (cases "(\<not> r dvd rows \<or> kernel_max < r * p) \<and> 1 < r")
    case True
    then have eq: "spec_shrink rows p kernel_max r = spec_shrink rows p kernel_max (r - 1)"
      by (subst spec_shrink.simps) simp
    have "1 \<le> r - 1" using True by linarith
    from "1.IH" [OF True this "1.prems"(2,3)] show ?thesis
      unfolding eq by auto
  next
    case False
    then have eq: "spec_shrink rows p kernel_max r = r"
      by (subst spec_shrink.simps) auto
    show ?thesis
    proof (cases "1 < r")
      case True
      with False show ?thesis unfolding eq using "1.prems" by auto
    next
      case False
      then have "r = 1" using "1.prems"(1) by simp
      then show ?thesis unfolding eq using "1.prems" by simp
    qed
  qed
qed

lemma column_factor_small:
  assumes "unat I < 2147483648" "unat W < 2147483648"
  shows "unat (min_int32 16 (min_int32 I W)) = spec_column_factor (unat I) (unat W)"
proof -
  have a: "unat (min_int32 I W) = min (unat I) (unat W)"
    using assms by (rule min_int32_small)
  have b: "unat (min_int32 I W) < 2147483648" using a assms by simp
  have c: "unat (16::u32) < 2147483648" by simp
  have "unat (min_int32 16 (min_int32 I W)) = min (unat (16::u32)) (unat (min_int32 I W))"
    using c b by (rule min_int32_small)
  then show ?thesis by (simp add: a spec_column_factor_def)
qed

lemma min_int32_cases: "min_int32 a b = a \<or> min_int32 a b = b"
  by (simp add: min_int32_def)

lemma unat_div_plus1:
  assumes "unat (n::u32) div unat (p::u32) + 1 < 4294967296"
  shows "unat (n div p + 1) = unat n div unat p + 1"
proof -
  have "unat (n div p) + unat (1::u32) < 2 ^ LENGTH(32)"
    using assms by (simp add: unat_div)
  then have "unat (n div p + 1) = unat (n div p) + unat (1::u32)"
    by (simp only: unat_add_lem)
  then show ?thesis by (simp add: unat_div)
qed


lemma spec_column_factor_bounds:
  "1 \<le> i \<Longrightarrow> 1 \<le> w \<Longrightarrow>
   1 \<le> spec_column_factor i w \<and> spec_column_factor i w \<le> 16 \<and> spec_column_factor i w \<le> w"
  by (simp add: spec_column_factor_def)

lemma work_partition_unfold:
  "min_int32 16 (min_int32 (getMaxWorkitemSize dev 1) (queryMaxWorkgroupSizeForCurKernel dev)) = p \<Longrightarrow>
   p \<noteq> 0 \<Longrightarrow>
   shrink_local_size n p (queryMaxWorkgroupSizeForCurKernel dev)
     (min_int32 (n div p + 1) (getMaxWorkgroupSize dev div p)) = Inr l \<Longrightarrow>
   work_partition dev n = Inr ([n, p], [l, p])"
  by (simp add: work_partition_def Let_def)

lemma work_partition_refines:
  fixes dev :: device and n :: u32
  defines "I \<equiv> getMaxWorkitemSize dev 1"
      and "W \<equiv> queryMaxWorkgroupSizeForCurKernel dev"
      and "D \<equiv> getMaxWorkgroupSize dev"
  defines "ps \<equiv> spec_column_factor (unat I) (unat W)"
  assumes I: "1 \<le> unat I" "unat I < 2147483648"
      and W: "1 \<le> unat W" "unat W < 2147483648"
      and D: "ps \<le> unat D" "unat D div ps < 2147483648"
      and n: "unat n div ps + 1 < 2147483648"
  shows "\<exists>p l. work_partition dev n = Inr ([n, p], [l, p]) \<and> unat p = ps \<and>
           unat l = spec_row_factor (unat n) ps (unat W) (unat D)"
proof -
  define p where "p = min_int32 16 (min_int32 I W)"
  have up: "unat p = ps" unfolding p_def ps_def using I(2) W(2) by (rule column_factor_small)
  have pb: "1 \<le> ps" "ps \<le> 16" "ps \<le> unat W"
    using spec_column_factor_bounds [OF I(1) W(1)] by (simp_all add: ps_def)
  have p0: "p \<noteq> 0" using up pb(1) by (metis not_one_le_zero unat_0)
  have pw: "of_nat ps = p" unfolding up [symmetric] by simp
  note da = n and db = D(2)
  have ua: "unat (n div p + 1) = unat n div ps + 1"
    using unat_div_plus1 [of n p] da up by simp
  have ub: "unat (D div p) = unat D div ps" by (simp add: unat_div up)
  define l0 where "l0 = min_int32 (n div p + 1) (D div p)"
  have ul0: "unat l0 = min (unat n div ps + 1) (unat D div ps)"
    unfolding l0_def using min_int32_small [of "n div p + 1" "D div p"] ua ub da db by simp
  have "1 \<le> unat D div ps" using D(1) pb(1) by (simp add: Suc_leI div_greater_zero_iff)
  then have l0pos: "1 \<le> unat l0" using ul0 by simp
  then have l0n: "l0 \<noteq> 0" by (metis not_one_le_zero unat_0)
  have "unat l0 * ps \<le> (unat D div ps) * ps" using ul0 by simp
  also have "\<dots> \<le> unat D" by simp
  finally have "unat l0 * ps < 4294967296" using unat_u32_bound [of D] by linarith
  then have ov: "unat l0 * unat p < 4294967296" by (simp only: up)
  define r where "r = spec_row_factor (unat n) ps (unat W) (unat D)"
  have r: "r = spec_shrink (unat n) ps (unat W) (unat l0)"
    by (simp add: r_def spec_row_factor_def ul0)
  have "shrink_local_size n p W l0 = Inr (of_nat (spec_shrink (unat n) (unat p) (unat W) (unat l0)))"
    using l0n ov by (rule shrink_refines)
  then have sh: "shrink_local_size n p W l0 = Inr (of_nat r)"
    by (simp add: r up)
  have "r \<le> unat l0"
    unfolding r using spec_shrink_legal [OF l0pos pb(1) pb(3)] by simp
  moreover have "unat l0 < 4294967296" by (rule unat_u32_bound)
  ultimately have "r < 4294967296" by linarith
  then have ur: "unat (of_nat r :: u32) = r" by (simp add: unat_of_nat)
  have "work_partition dev n = Inr ([n, p], [of_nat r, p])"
    using p0 sh by (intro work_partition_unfold) (simp_all add: p_def l0_def I_def W_def D_def)
  then show ?thesis using up ur unfolding r_def by blast
qed


lemma work_partition_legal:
  fixes dev :: device and n :: u32
  defines "I \<equiv> getMaxWorkitemSize dev 1"
      and "W \<equiv> queryMaxWorkgroupSizeForCurKernel dev"
      and "D \<equiv> getMaxWorkgroupSize dev"
  assumes n: "1 \<le> unat n" "unat n < 2147483648"
      and I: "1 \<le> unat I" "unat I < 2147483648"
      and W: "1 \<le> unat W" "unat W < 2147483648"
      and D: "unat W \<le> unat D"
      and I0: "unat W div spec_column_factor (unat I) (unat W) \<le> unat (getMaxWorkitemSize dev 0)"
  shows "\<exists>p l. work_partition dev n = Inr ([n, p], [l, p]) \<and> legal_local_size dev [n, p] [l, p]"
proof -
  define ps where "ps = spec_column_factor (unat I) (unat W)"
  define p where "p = min_int32 16 (min_int32 I W)"
  have up: "unat p = ps" unfolding p_def ps_def using I(2) W(2) by (rule column_factor_small)
  have pI: "ps \<le> unat I" by (simp add: ps_def spec_column_factor_def)
  have pb: "1 \<le> ps" "ps \<le> 16" "ps \<le> unat W"
    using spec_column_factor_bounds [OF I(1) W(1)] by (simp_all add: ps_def)
  have p0: "p \<noteq> 0" using up pb(1) by (metis not_one_le_zero unat_0)
  have nD: "unat D < 4294967296" by (rule unat_u32_bound)
  define a where "a = n div p + 1"
  define b where "b = D div p"
  have "unat n div ps \<le> unat n" by (rule div_le_dividend)
  then have da: "unat n div ps + 1 < 4294967296" using n(2) by linarith
  have ua: "unat a = unat n div ps + 1"
    unfolding a_def using unat_div_plus1 [of n p] da up by simp
  have ub: "unat b = unat D div ps" by (simp add: b_def unat_div up)
  have "ps \<le> unat D" using pb(3) D by linarith
  then have bpos: "1 \<le> unat b" unfolding ub using pb(1) by (simp add: Suc_leI div_greater_zero_iff)
  have am: "unat a * ps < 4294967296"
  proof -
    have "unat a * ps = (unat n div ps) * ps + ps" by (simp add: ua)
    also have "\<dots> \<le> unat n + ps" by simp
    finally show ?thesis using n(2) pb(2) by linarith
  qed
  have bm: "unat b * ps < 4294967296"
  proof -
    have "unat b * ps \<le> unat D" by (simp add: ub)
    then show ?thesis using nD by linarith
  qed
  define l0 where "l0 = min_int32 a b"
  have l0c: "l0 = a \<or> l0 = b" unfolding l0_def by (rule min_int32_cases)
  have l0pos: "1 \<le> unat l0" using l0c ua bpos by auto
  then have l0n: "l0 \<noteq> 0" by (metis not_one_le_zero unat_0)
  have "unat l0 * ps < 4294967296" using l0c am bm by auto
  then have ov: "unat l0 * unat p < 4294967296" by (simp only: up)
  define r where "r = spec_shrink (unat n) ps (unat W) (unat l0)"
  have sh: "shrink_local_size n p W l0 = Inr (of_nat r)"
    unfolding r_def up [symmetric] using l0n ov by (rule shrink_refines)
  have leg: "1 \<le> r \<and> r \<le> unat l0 \<and> r dvd unat n \<and> r * ps \<le> unat W"
    unfolding r_def using l0pos pb(1) pb(3) by (rule spec_shrink_legal)
  have "unat l0 < 4294967296" by (rule unat_u32_bound)
  then have rs: "r < 4294967296" using leg by linarith
  have ur: "unat (of_nat r :: u32) = r" using rs by (simp add: unat_of_nat)
  have wp: "work_partition dev n = Inr ([n, p], [of_nat r, p])"
    using p0 sh by (intro work_partition_unfold) (simp_all add: p_def l0_def a_def b_def I_def W_def D_def)
  have d1: "divides_evenly n (of_nat r)"
    using leg by (simp add: divides_evenly_def ur)
  have d2: "divides_evenly p p" using pb(1) by (simp add: divides_evenly_def up)
  have pr: "prod_list (map unat [of_nat r, p]) \<le> unat W" using leg by (simp add: ur up)
  have "0 < ps" using pb(1) by simp
  then have "r \<le> unat W div ps" using leg by (simp add: less_eq_div_iff_mult_less_eq)
  then have i0: "unat (of_nat r :: u32) \<le> unat (getMaxWorkitemSize dev 0)"
    using I0 by (simp add: ur ps_def)
  have i1: "unat p \<le> unat (getMaxWorkitemSize dev 1)"
    using pI by (simp add: up I_def)
  have it: "list_all (\<lambda>i. unat ([of_nat r, p] ! i) \<le> unat (getMaxWorkitemSize dev i))
              [0..<length [of_nat r, p]]"
    using i0 i1 by simp
  have "legal_local_size dev [n, p] [of_nat r, p]"
    unfolding legal_local_size_def
  proof (intro conjI)
    show "list_all2 divides_evenly [n, p] [of_nat r, p]" using d1 d2 by simp
    show "list_all (\<lambda>i. unat ([of_nat r, p] ! i) \<le> unat (getMaxWorkitemSize dev i))
              [0..<length [of_nat r, p]]"
      by (rule it)
    show "prod_list (map unat [of_nat r, p]) \<le> unat (queryMaxWorkgroupSizeForCurKernel dev)"
      using pr by (simp only: W_def)
    show "prod_list (map unat [of_nat r, p]) \<le> unat (getMaxWorkgroupSize dev)"
      using pr D unfolding W_def D_def by linarith
  qed
  with wp show ?thesis by blast
qed


text \<open>
  C5 (as amended).  Where the code's signed 32-bit casts keep the values and no
  division by zero occurs, Linear's threaded path computes its work partition by the
  specified heuristic.  For \<open>maxWorkitemSize[1]\<close> and the kernel's maximal work-group
  size between 1 and \<open>2^31 - 1\<close>, a device work-group limit no smaller than the column
  factor \<open>p\<close>, and \<open>rows / p + 1\<close> and \<open>deviceMax / p\<close> below \<open>2^31\<close>, \<open>forwardProp\<close> computes
  a partition: its column factor is \<open>p = min(16, maxWorkitemSize[1], kernelMax)\<close>, and
  its row factor is the one the specification's shrink loop reaches from
  \<open>min(rows / p + 1, deviceMax / p)\<close>.
\<close>

theorem work_partition_is_spec_heuristic:
  assumes "1 \<le> unat (getMaxWorkitemSize dev 1)"
      and "unat (getMaxWorkitemSize dev 1) < 2147483648"
      and "1 \<le> unat (queryMaxWorkgroupSizeForCurKernel dev)"
      and "unat (queryMaxWorkgroupSizeForCurKernel dev) < 2147483648"
      and "spec_column_factor (unat (getMaxWorkitemSize dev 1))
             (unat (queryMaxWorkgroupSizeForCurKernel dev)) \<le> unat (getMaxWorkgroupSize dev)"
      and "unat (getMaxWorkgroupSize dev) div
             spec_column_factor (unat (getMaxWorkitemSize dev 1))
               (unat (queryMaxWorkgroupSizeForCurKernel dev)) < 2147483648"
      and "unat n div
             spec_column_factor (unat (getMaxWorkitemSize dev 1))
               (unat (queryMaxWorkgroupSizeForCurKernel dev)) + 1 < 2147483648"
  shows "\<exists>p l. work_partition dev n = Inr ([n, p], [l, p]) \<and>
           unat p = spec_column_factor (unat (getMaxWorkitemSize dev 1))
                      (unat (queryMaxWorkgroupSizeForCurKernel dev)) \<and>
           unat l = spec_row_factor (unat n) (unat p)
                      (unat (queryMaxWorkgroupSizeForCurKernel dev))
                      (unat (getMaxWorkgroupSize dev))"
proof -
  obtain p l where wp: "work_partition dev n = Inr ([n, p], [l, p])"
      and p: "unat p = spec_column_factor (unat (getMaxWorkitemSize dev 1))
                         (unat (queryMaxWorkgroupSizeForCurKernel dev))"
      and l: "unat l = spec_row_factor (unat n)
                         (spec_column_factor (unat (getMaxWorkitemSize dev 1))
                            (unat (queryMaxWorkgroupSizeForCurKernel dev)))
                         (unat (queryMaxWorkgroupSizeForCurKernel dev))
                         (unat (getMaxWorkgroupSize dev))"
    using work_partition_refines [OF assms] by blast
  from l have "unat l = spec_row_factor (unat n) (unat p)
                         (unat (queryMaxWorkgroupSizeForCurKernel dev))
                         (unat (getMaxWorkgroupSize dev))"
    by (simp only: p)
  with wp p show ?thesis by blast
qed

theorem work_partition_is_spec_heuristic_witness:
  "\<exists>p l. work_partition device_256 100 = Inr ([100, p], [l, p]) \<and> unat p = 16 \<and> unat l = 5"
proof -
  have "\<exists>p l. work_partition device_256 100 = Inr ([100, p], [l, p]) \<and>
          unat p = spec_column_factor 1024 256 \<and> unat l = spec_row_factor 100 (unat p) 256 1024"
    using work_partition_is_spec_heuristic [of device_256 100]
    by (simp add: spec_column_factor_def device_256_def)
  then obtain p l where wp: "work_partition device_256 100 = Inr ([100, p], [l, p])"
      and p: "unat p = spec_column_factor 1024 256"
      and l: "unat l = spec_row_factor 100 (unat p) 256 1024"
    by blast
  have p16: "unat p = 16" using p by (simp add: spec_column_factor_def)
  have "unat l = 5"
    unfolding l p16 by (simp add: spec_row_factor_def spec_shrink.simps)
  with wp p16 show ?thesis by blast
qed

text \<open>
  C5 as stated fails: on a device that reports \<open>maxWorkitemSize[1] = 2^31\<close>, with a
  kernel limit of 256, a device limit of 1024 and one output row, the specified
  heuristic gives the column factor \<open>min(16, 2^31, 256) = 16\<close> and the row factor 1.
  The code reads \<open>2^31\<close> as the \<open>int32_t\<close> \<open>-2^31\<close>, takes it for the minimum, stores it
  as the column factor \<open>2^31\<close>, starts the row factor at \<open>min(1, 1024 / 2^31) = 0\<close> and
  divides by it.
\<close>

theorem work_partition_signed_cast_counterexample:
  "work_partition device_wide 1 = Inl DivisionByZero \<and>
   spec_column_factor (unat (getMaxWorkitemSize device_wide 1))
     (unat (queryMaxWorkgroupSizeForCurKernel device_wide)) = 16 \<and>
   spec_row_factor 1 16 (unat (queryMaxWorkgroupSizeForCurKernel device_wide))
     (unat (getMaxWorkgroupSize device_wide)) = 1"
  by (simp add: work_partition_def device_wide_def min_int32_def shrink_local_size.simps
      spec_column_factor_def spec_row_factor_def spec_shrink.simps)




section \<open>Properties of SpatialDivisiveNormalization\<close>

lemma c_rem_2_zero: "(c_rem a 2 = 0) = even a"
proof (cases "0 \<le> a")
  case True
  then have "c_rem a 2 = a - 2 * (a div 2)"
    by (simp add: c_rem_def c_div_def sgn_if)
  then show ?thesis by presburger
next
  case False
  then have "c_rem a 2 = a + 2 * ((- a) div 2)"
    by (simp add: c_rem_def c_div_def sgn_if)
  then show ?thesis by presburger
qed

lemma SDN_new_error_iff:
  "(SDN_new K th heap = Inl InvalidKernelShapeError) =
     (even (fst (dims K)) \<or> even (fst (snd (dims K))) \<or> snd (snd (dims K)) \<noteq> 1)"
  by (simp add: SDN_new_def c_rem_2_zero)

lemma SDN_new_success:
  "odd (fst (dims K)) \<Longrightarrow> odd (fst (snd (dims K))) \<Longrightarrow> snd (snd (dims K)) = 1 \<Longrightarrow>
   SDN_new K th heap =
     Inr (\<lparr>SDN_output = None, SDN_kernel = Some (K\<lparr>buf := heap\<rparr>),
           SDN_kernel_norm = None, SDN_std_coef = None, SDN_std_pass1 = None,
           SDN_std_pass2 = None, SDN_std = None, SDN_threshold = th\<rparr>, Suc heap)"
  by (simp add: SDN_new_def c_rem_2_zero clone_def)

lemma SDN_new_Inr:
  "SDN_new K th heap = Inr (s, heap1) \<Longrightarrow>
     s = \<lparr>SDN_output = None, SDN_kernel = Some (K\<lparr>buf := heap\<rparr>),
           SDN_kernel_norm = None, SDN_std_coef = None, SDN_std_pass1 = None,
           SDN_std_pass2 = None, SDN_std = None, SDN_threshold = th\<rparr> \<and> heap1 = Suc heap \<and>
     odd (fst (dims K)) \<and> odd (fst (snd (dims K))) \<and> snd (snd (dims K)) = 1"
  by (auto simp: SDN_new_def c_rem_2_zero clone_def split: if_splits)

lemma length_coef_1d: "length (coef_1d kn ks w h f) = nat h * nat w"
  by (simp add: coef_1d_def Let_def length_concat comp_def sum_list_triv)

lemma length_coef_2d: "length (coef_2d kn ku kv w h f) = nat h * nat w"
  by (simp add: coef_2d_def Let_def length_concat comp_def sum_list_triv)


lemma init_release_no_output: "SDN_output s = None \<Longrightarrow> init_release inp s = s"
  by (simp add: init_release_def)

lemma init_output_fresh:
  assumes "SDN_output s = None"
      and "0 < fst (dims inp)" "0 < fst (snd (dims inp))" "0 < snd (snd (dims inp))"
  shows "init_output inp (s, heap) =
           Inr (s\<lparr>SDN_output := Some \<lparr>buf = heap, dims = dims inp,
                      vals = replicate (nat (dataSize inp)) 0\<rparr>,
                    SDN_std_pass1 := Some \<lparr>buf = Suc heap, dims = dims inp,
                      vals = replicate (nat (dataSize inp)) 0\<rparr>,
                    SDN_std_pass2 := Some \<lparr>buf = Suc (Suc heap), dims = dims inp,
                      vals = replicate (nat (dataSize inp)) 0\<rparr>\<rparr>, Suc (Suc (Suc heap)))"
  using assms by (simp add: init_output_def FloatTensor_new_def dataSize_def)

lemma init_kernel_norm_fresh:
  assumes "SDN_kernel_norm s = None" and "SDN_kernel s = Some k"
  shows "init_kernel_norm inp (s, heap) =
           Inr (s\<lparr>SDN_kernel_norm := Some \<lparr>buf = heap, dims = dims k,
                      vals = map (\<lambda>x. x / (if fst (snd (dims k)) = 1
                                            then sum_list (vals k) * sqrt (real_of_int (snd (snd (dims inp))))
                                            else sum_list (vals k) * real_of_int (snd (snd (dims inp)))))
                               (vals k)\<rparr>\<rparr>, Suc heap)"
  using assms by (simp add: init_kernel_norm_def clone_def slowSum_def Tensor_div_def Let_def)

lemma init_std_coef_fresh:
  assumes "SDN_std_coef s = None" and "SDN_output s = Some out"
      and "SDN_kernel_norm s = Some kn" and "SDN_kernel s = Some k"
      and "0 < fst (dims out)" "0 < fst (snd (dims out))"
  shows "init_std_coef (s, heap) =
           Inr (s\<lparr>SDN_std_coef := Some \<lparr>buf = heap,
                      dims = (fst (dims out), fst (snd (dims out)), 1),
                      vals = (if fst (snd (dims k)) = 1
                              then coef_1d (vals kn) (fst (dims kn))
                                     (fst (dims out)) (fst (snd (dims out))) (snd (snd (dims out)))
                              else coef_2d (vals kn) (fst (dims kn)) (fst (snd (dims kn)))
                                     (fst (dims out)) (fst (snd (dims out)))
                                     (snd (snd (dims out))))\<rparr>\<rparr>, Suc heap)"
proof -
  have n: "nat (fst (dims out) * fst (snd (dims out))) = nat (fst (snd (dims out))) * nat (fst (dims out))"
    using assms(5,6) by (simp add: nat_mult_distrib mult.commute)
  show ?thesis
    using assms n
    by (simp add: init_std_coef_def FloatTensor_new_def FloatTensor_setData_def
        length_coef_1d length_coef_2d)
qed

lemma init_std_fresh:
  assumes "SDN_std s = None" and "SDN_output s = Some out"
      and "0 < fst (dims out)" "0 < fst (snd (dims out))"
  shows "init_std (s, heap) =
           Inr (s\<lparr>SDN_std := Some \<lparr>buf = heap, dims = (fst (dims out), fst (snd (dims out)), 1),
                      vals = replicate (nat (fst (dims out) * fst (snd (dims out)))) 0\<rparr>\<rparr>, Suc heap)"
  using assms by (simp add: init_std_def FloatTensor_new_def)

lemma SDN_first_init:
  assumes new: "SDN_new K th heap = Inr (s, heap1)"
      and pos: "0 < fst (dims inp)" "0 < fst (snd (dims inp))" "0 < snd (snd (dims inp))"
  shows "\<exists>out p1 p2 kn sc sd.
           SDN_init (FloatTensorData inp) (s, heap1) =
             Inr (\<lparr>SDN_output = Some out, SDN_kernel = Some (K\<lparr>buf := heap\<rparr>),
                   SDN_kernel_norm = Some kn, SDN_std_coef = Some sc, SDN_std_pass1 = Some p1,
                   SDN_std_pass2 = Some p2, SDN_std = Some sd, SDN_threshold = th\<rparr>, heap1 + 6) \<and>
           buf out = heap1 \<and> dims out = dims inp \<and>
           buf kn = heap1 + 3 \<and> dims kn = dims K \<and>
           vals kn = map (\<lambda>x. x / (if fst (snd (dims K)) = 1
                                   then sum_list (vals K) * sqrt (real_of_int (snd (snd (dims inp))))
                                   else sum_list (vals K) * real_of_int (snd (snd (dims inp)))))
                         (vals K) \<and>
           buf sc = heap1 + 4"
proof -
  from SDN_new_Inr [OF new]
  have s: "s = \<lparr>SDN_output = None, SDN_kernel = Some (K\<lparr>buf := heap\<rparr>),
           SDN_kernel_norm = None, SDN_std_coef = None, SDN_std_pass1 = None,
           SDN_std_pass2 = None, SDN_std = None, SDN_threshold = th\<rparr>" by simp
  define s1 where "s1 = s\<lparr>SDN_output := Some \<lparr>buf = heap1, dims = dims inp,
                      vals = replicate (nat (dataSize inp)) 0\<rparr>,
                    SDN_std_pass1 := Some \<lparr>buf = Suc heap1, dims = dims inp,
                      vals = replicate (nat (dataSize inp)) 0\<rparr>,
                    SDN_std_pass2 := Some \<lparr>buf = Suc (Suc heap1), dims = dims inp,
                      vals = replicate (nat (dataSize inp)) 0\<rparr>\<rparr>"
  have a: "init_output inp (init_release inp s, heap1) = Inr (s1, heap1 + 3)"
    unfolding s1_def using pos by (simp add: init_release_no_output init_output_fresh s)
  define kn where "kn = \<lparr>buf = heap1 + 3, dims = dims K,
                      vals = map (\<lambda>x. x / (if fst (snd (dims K)) = 1
                                            then sum_list (vals K) * sqrt (real_of_int (snd (snd (dims inp))))
                                            else sum_list (vals K) * real_of_int (snd (snd (dims inp)))))
                               (vals K)\<rparr>"
  define s2 where "s2 = s1\<lparr>SDN_kernel_norm := Some kn\<rparr>"
  have b: "init_kernel_norm inp (s1, heap1 + 3) = Inr (s2, heap1 + 4)"
    unfolding s2_def kn_def
    using init_kernel_norm_fresh [of s1 "K\<lparr>buf := heap\<rparr>" inp "heap1 + 3"]
    by (simp add: s1_def s)
  define sc where "sc = \<lparr>buf = heap1 + 4,
                      dims = (fst (dims inp), fst (snd (dims inp)), 1),
                      vals = (if fst (snd (dims K)) = 1
                              then coef_1d (vals kn) (fst (dims kn))
                                     (fst (dims inp)) (fst (snd (dims inp))) (snd (snd (dims inp)))
                              else coef_2d (vals kn) (fst (dims kn)) (fst (snd (dims kn)))
                                     (fst (dims inp)) (fst (snd (dims inp)))
                                     (snd (snd (dims inp))))\<rparr>"
  have sc: "buf sc = heap1 + 4" by (simp add: sc_def)
  have c: "init_std_coef (s2, heap1 + 4) = Inr (s2\<lparr>SDN_std_coef := Some sc\<rparr>, heap1 + 5)"
    using init_std_coef_fresh [of s2 "\<lparr>buf = heap1, dims = dims inp,
                      vals = replicate (nat (dataSize inp)) 0\<rparr>" kn "K\<lparr>buf := heap\<rparr>" "heap1 + 4"] pos
    by (simp add: s2_def s1_def s sc_def)
  define s3 where "s3 = s2\<lparr>SDN_std_coef := Some sc\<rparr>"
  have d: "init_std (s3, heap1 + 5) =
           Inr (s3\<lparr>SDN_std := Some \<lparr>buf = heap1 + 5, dims = (fst (dims inp), fst (snd (dims inp)), 1),
                      vals = replicate (nat (fst (dims inp) * fst (snd (dims inp)))) 0\<rparr>\<rparr>, heap1 + 6)"
    using init_std_fresh [of s3 "\<lparr>buf = heap1, dims = dims inp,
                      vals = replicate (nat (dataSize inp)) 0\<rparr>" "heap1 + 5"] pos
    by (simp add: s3_def s2_def s1_def s)
  have "SDN_init (FloatTensorData inp) (s, heap1) =
          Inr (s3\<lparr>SDN_std := Some \<lparr>buf = heap1 + 5, dims = (fst (dims inp), fst (snd (dims inp)), 1),
                      vals = replicate (nat (fst (dims inp) * fst (snd (dims inp)))) 0\<rparr>\<rparr>, heap1 + 6)"
    by (simp add: SDN_init_def a b c d s3_def [symmetric])
  then show ?thesis
    by (simp add: s3_def s2_def s1_def s kn_def sc)
qed

lemma Int3_equal_iff: "Int3_equal a b = (a = b)"
  by (auto simp: Int3_equal_def prod_eq_iff)

lemma init_success_output:
  assumes "SDN_init (FloatTensorData inp) st = Inr st1"
  shows "\<exists>out. SDN_output (fst st1) = Some out \<and> dims out = dims inp"
  using assms
  by (auto simp: SDN_init_def init_release_def init_output_def init_kernel_norm_def
      init_std_coef_def init_std_def FloatTensor_new_def FloatTensor_setData_def clone_def
      Int3_equal_iff Let_def
      split: option.splits sum.splits if_splits prod.splits)

lemma allocated_init_noop:
  "allocated_for (dims inp) s \<Longrightarrow> SDN_init (FloatTensorData inp) (s, heap) = Inr (s, heap)"
  by (auto simp: allocated_for_def SDN_init_def init_release_def init_output_def
      init_kernel_norm_def init_std_coef_def init_std_def Int3_equal_iff
      split: option.splits)

lemma run_kernels_success:
  assumes "run_kernels cl inp s = Inr s'"
  shows "SDN_kernel s \<noteq> None \<and> SDN_kernel_norm s \<noteq> None \<and> SDN_std_coef s \<noteq> None \<and>
         SDN_std_pass1 s \<noteq> None \<and> SDN_std_pass2 s \<noteq> None \<and> SDN_std s \<noteq> None \<and>
         SDN_output s \<noteq> None \<and>
         map_option dims (SDN_output s') = map_option dims (SDN_output s) \<and>
         map_option buf (SDN_output s') = map_option buf (SDN_output s) \<and>
         SDN_kernel s' = SDN_kernel s \<and> SDN_kernel_norm s' = SDN_kernel_norm s \<and>
         SDN_std_coef s' = SDN_std_coef s \<and>
         SDN_std_pass1 s' \<noteq> None \<and> SDN_std_pass2 s' \<noteq> None \<and> SDN_std s' \<noteq> None"
  using assms
  by (auto simp: run_kernels_def Let_def split: option.splits)

lemma run_kernels_allocated:
  assumes "allocated_for S s"
  shows "\<exists>s'. run_kernels cl inp s = Inr s'"
  using assms
  by (auto simp: allocated_for_def run_kernels_def Let_def split: option.splits)


lemma forward_success_allocated:
  assumes "SDN_forwardProp cl (FloatTensorData inp) st = Inr st1"
  shows "allocated_for (dims inp) (fst st1)"
proof -
  obtain sti where i: "SDN_init (FloatTensorData inp) st = Inr sti"
      and r: "run_kernels cl inp (fst sti) = Inr (fst st1)"
    using assms by (auto simp: SDN_forwardProp_def split: sum.splits)
  obtain out where o: "SDN_output (fst sti) = Some out" "dims out = dims inp"
    using init_success_output [OF i] by blast
  from run_kernels_success [OF r] o show ?thesis
    by (auto simp: allocated_for_def split: option.splits)
qed

lemma forward_allocated:
  assumes "allocated_for (dims inp) s"
  shows "\<exists>s'. SDN_forwardProp cl (FloatTensorData inp) (s, heap) = Inr (s', heap) \<and>
              allocated_for (dims inp) s' \<and>
              map_option buf (SDN_output s') = map_option buf (SDN_output s) \<and>
              SDN_kernel_norm s' = SDN_kernel_norm s \<and> SDN_std_coef s' = SDN_std_coef s"
proof -
  obtain s' where r: "run_kernels cl inp s = Inr s'"
    using run_kernels_allocated [OF assms] by blast
  have f: "SDN_forwardProp cl (FloatTensorData inp) (s, heap) = Inr (s', heap)"
    by (simp add: SDN_forwardProp_def allocated_init_noop [OF assms] r)
  have "allocated_for (dims inp) s'"
    using forward_success_allocated [OF f] by simp
  with f run_kernels_success [OF r] show ?thesis by blast
qed

lemma forward_seq_allocated:
  assumes "allocated_for S s" and "\<forall>inp\<in>set ins. dims inp = S"
  shows "\<exists>s'. SDN_forwardProp_seq cl (map FloatTensorData ins) (s, heap) = Inr (s', heap) \<and>
              allocated_for S s' \<and>
              map_option buf (SDN_output s') = map_option buf (SDN_output s) \<and>
              SDN_kernel_norm s' = SDN_kernel_norm s \<and> SDN_std_coef s' = SDN_std_coef s"
  using assms
proof (induction ins arbitrary: s)
  case Nil
  then show ?case by simp
next
  case (Cons inp ins)
  then have d: "dims inp = S" by simp
  obtain s1 where f: "SDN_forwardProp cl (FloatTensorData inp) (s, heap) = Inr (s1, heap)"
      and a: "allocated_for S s1"
      and k: "map_option buf (SDN_output s1) = map_option buf (SDN_output s)"
             "SDN_kernel_norm s1 = SDN_kernel_norm s" "SDN_std_coef s1 = SDN_std_coef s"
    using forward_allocated [of inp s cl heap] Cons.prems(1) d by auto
  obtain s' where "SDN_forwardProp_seq cl (map FloatTensorData ins) (s1, heap) = Inr (s', heap)"
      and "allocated_for S s'"
      and "map_option buf (SDN_output s') = map_option buf (SDN_output s1)"
          "SDN_kernel_norm s' = SDN_kernel_norm s1" "SDN_std_coef s' = SDN_std_coef s1"
    using Cons.IH [OF a] Cons.prems(2) by auto
  then show ?case using f k by simp
qed

lemma shape_change_null_dereference:
  assumes a: "allocated_for S s" and d: "dims inp \<noteq> S"
      and pos: "0 < fst (dims inp)" "0 < fst (snd (dims inp))" "0 < snd (snd (dims inp))"
  shows "SDN_init (FloatTensorData inp) (s, heap) = Inl NullDereference"
proof -
  obtain out where o: "SDN_output s = Some out" "dims out = S"
    using a by (auto simp: allocated_for_def split: option.splits)
  define s0 where "s0 = s\<lparr>SDN_output := None, SDN_kernel := None, SDN_kernel_norm := None,
                 SDN_std_coef := None, SDN_std_pass1 := None, SDN_std_pass2 := None,
                 SDN_std := None\<rparr>"
  have r: "init_release inp s = s0"
    using o d by (simp add: init_release_def Int3_equal_iff s0_def)
  have "SDN_output s0 = None" by (simp add: s0_def)
  from init_output_fresh [OF this pos]
  obtain s1 where io: "init_output inp (s0, heap) = Inr (s1, Suc (Suc (Suc heap)))"
      and k: "SDN_kernel s1 = None" "SDN_kernel_norm s1 = None"
    by (simp add: s0_def)
  have "init_kernel_norm inp (s1, Suc (Suc (Suc heap))) = Inl NullDereference"
    using k by (simp add: init_kernel_norm_def)
  then show ?thesis by (simp add: SDN_init_def r io)
qed


lemmas sdn_eval = SDN_new_def SDN_init_def init_release_def init_output_def init_kernel_norm_def
  init_std_coef_def init_std_def FloatTensor_new_def clone_def slowSum_def Tensor_div_def
  FloatTensor_setData_def c_rem_def c_div_def Int3_equal_def coef_1d_def coef_2d_def Let_def
  upto.simps SDN_forwardProp_def run_kernels_def idle_kernels_def

lemma kernel_3_new:
  "SDN_new kernel_3 0 5 =
     Inr (\<lparr>SDN_output = None, SDN_kernel = Some \<lparr>buf = 5, dims = (3, 1, 1), vals = [1, 2, 1]\<rparr>,
           SDN_kernel_norm = None, SDN_std_coef = None, SDN_std_pass1 = None,
           SDN_std_pass2 = None, SDN_std = None, SDN_threshold = 0\<rparr>, 6)"
  by (simp add: sdn_eval kernel_3_def)

lemma kernel_3x3_new:
  "SDN_new kernel_3x3 0 5 =
     Inr (\<lparr>SDN_output = None,
           SDN_kernel = Some \<lparr>buf = 5, dims = (3, 3, 1), vals = [1, 1, 1, 1, 2, 1, 1, 1, 1]\<rparr>,
           SDN_kernel_norm = None, SDN_std_coef = None, SDN_std_pass1 = None,
           SDN_std_pass2 = None, SDN_std = None, SDN_threshold = 0\<rparr>, 6)"
  by (simp add: sdn_eval kernel_3x3_def)

lemma forward_image_2x2:
  "SDN_forwardProp idle_kernels (FloatTensorData image_2x2)
     (\<lparr>SDN_output = None, SDN_kernel = Some \<lparr>buf = 5, dims = (3, 1, 1), vals = [1, 2, 1]\<rparr>,
           SDN_kernel_norm = None, SDN_std_coef = None, SDN_std_pass1 = None,
           SDN_std_pass2 = None, SDN_std = None, SDN_threshold = 0\<rparr>, 6) =
   Inr (\<lparr>SDN_output = Some \<lparr>buf = 6, dims = (2, 2, 1), vals = replicate 4 0\<rparr>,
         SDN_kernel = Some \<lparr>buf = 5, dims = (3, 1, 1), vals = [1, 2, 1]\<rparr>,
         SDN_kernel_norm = Some \<lparr>buf = 9, dims = (3, 1, 1), vals = [1 / 4, 1 / 2, 1 / 4]\<rparr>,
         SDN_std_coef = Some \<lparr>buf = 10, dims = (2, 2, 1),
                               vals = [9 / 16, 9 / 16, 9 / 16, 9 / 16]\<rparr>,
         SDN_std_pass1 = Some \<lparr>buf = 7, dims = (2, 2, 1), vals = replicate 4 0\<rparr>,
         SDN_std_pass2 = Some \<lparr>buf = 8, dims = (2, 2, 1), vals = replicate 4 0\<rparr>,
         SDN_std = Some \<lparr>buf = 11, dims = (2, 2, 1), vals = replicate 4 0\<rparr>,
         SDN_threshold = 0\<rparr>, 12)"
  by (simp add: sdn_eval image_2x2_def)

text \<open>
  C1.  The code does not rebuild the stage on a change of shape.  After a forward call
  that succeeded on an input of extents \<open>S\<close>, a forward call on an input of other
  (positive) extents \<open>S'\<close> releases all seven tensors, the constructor's kernel \<open>kernel_\<close>
  among them, allocates the output and the two pass tensors anew, and then dereferences
  the null \<open>kernel_\<close> at line 76: \<open>init\<close>, and with it \<open>forwardProp\<close>, ends in a null
  dereference instead of the state \<open>Allocated(S')\<close>.
\<close>

theorem shape_change_forward_fails:
  assumes "SDN_forwardProp cl (FloatTensorData in1) st0 = Inr st1"
      and "dims in2 \<noteq> dims in1"
      and "0 < fst (dims in2)" "0 < fst (snd (dims in2))" "0 < snd (snd (dims in2))"
  shows "SDN_init (FloatTensorData in2) st1 = Inl NullDereference \<and>
         SDN_forwardProp cl (FloatTensorData in2) st1 = Inl NullDereference"
proof -
  have "allocated_for (dims in1) (fst st1)"
    using assms(1) by (rule forward_success_allocated)
  then have "SDN_init (FloatTensorData in2) (fst st1, snd st1) = Inl NullDereference"
    using assms(2-5) by (rule shape_change_null_dereference)
  then show ?thesis by (simp add: SDN_forwardProp_def)
qed

theorem shape_change_forward_fails_witness:
  "\<exists>st0 st1. SDN_new kernel_3 0 5 = Inr st0 \<and>
      SDN_forwardProp idle_kernels (FloatTensorData image_2x2) st0 = Inr st1 \<and>
      SDN_init (FloatTensorData image_3x2) st1 = Inl NullDereference \<and>
      SDN_forwardProp idle_kernels (FloatTensorData image_3x2) st1 = Inl NullDereference"
proof -
  have "dims image_3x2 \<noteq> dims image_2x2" by (simp add: image_3x2_def image_2x2_def)
  then show ?thesis
    using shape_change_forward_fails [OF forward_image_2x2, of image_3x2] kernel_3_new
      forward_image_2x2
    by (simp add: image_3x2_def)
qed

text \<open>
  C4.  After a forward call that succeeded on an input of extents \<open>S\<close>, any number of
  further forward calls on inputs of the same extents (whatever their contents and
  buffers) succeed, allocate nothing, leave the output in the same buffer, and leave
  the normalized kernel and the coefficient tensor as they are: both are computed once.
\<close>

theorem forward_same_shape_keeps_buffers:
  assumes "SDN_forwardProp cl (FloatTensorData in1) st0 = Inr st1"
      and "\<forall>inp\<in>set ins. dims inp = dims in1"
  shows "\<exists>st2. SDN_forwardProp_seq cl (map FloatTensorData ins) st1 = Inr st2 \<and>
           snd st2 = snd st1 \<and>
           SDN_output (fst st1) \<noteq> None \<and>
           map_option buf (SDN_output (fst st2)) = map_option buf (SDN_output (fst st1)) \<and>
           SDN_kernel_norm (fst st1) \<noteq> None \<and>
           SDN_kernel_norm (fst st2) = SDN_kernel_norm (fst st1) \<and>
           SDN_std_coef (fst st1) \<noteq> None \<and>
           SDN_std_coef (fst st2) = SDN_std_coef (fst st1)"
proof -
  have a: "allocated_for (dims in1) (fst st1)"
    using assms(1) by (rule forward_success_allocated)
  obtain s' where "SDN_forwardProp_seq cl (map FloatTensorData ins) (fst st1, snd st1) =
                     Inr (s', snd st1)"
      and "map_option buf (SDN_output s') = map_option buf (SDN_output (fst st1))"
      and "SDN_kernel_norm s' = SDN_kernel_norm (fst st1)"
      and "SDN_std_coef s' = SDN_std_coef (fst st1)"
    using forward_seq_allocated [OF a assms(2)] by blast
  moreover have "SDN_output (fst st1) \<noteq> None \<and> SDN_kernel_norm (fst st1) \<noteq> None \<and>
                 SDN_std_coef (fst st1) \<noteq> None"
    using a by (auto simp: allocated_for_def split: option.splits)
  ultimately show ?thesis by auto
qed

theorem forward_same_shape_keeps_buffers_witness:
  "\<exists>st0 st1 st2. SDN_new kernel_3 0 5 = Inr st0 \<and>
      SDN_forwardProp idle_kernels (FloatTensorData image_2x2) st0 = Inr st1 \<and>
      SDN_forwardProp_seq idle_kernels
        [FloatTensorData image_2x2', FloatTensorData image_2x2] st1 = Inr st2 \<and>
      snd st2 = snd st1 \<and>
      map_option buf (SDN_output (fst st1)) = Some 6 \<and>
      map_option buf (SDN_output (fst st2)) = Some 6 \<and>
      SDN_kernel_norm (fst st2) =
        Some \<lparr>buf = 9, dims = (3, 1, 1), vals = [1 / 4, 1 / 2, 1 / 4]\<rparr>"
proof -
  have "\<forall>inp\<in>set [image_2x2', image_2x2]. dims inp = dims image_2x2"
    by (simp add: image_2x2'_def image_2x2_def)
  then show ?thesis
    using forward_same_shape_keeps_buffers [OF forward_image_2x2, of "[image_2x2', image_2x2]"]
      kernel_3_new forward_image_2x2
    by auto
qed

text \<open>
  C8.  Constructing the stage from a kernel \<open>K\<close> fails with \<open>InvalidKernelShapeError\<close>
  exactly when the first extent of \<open>K\<close> is even, or the second is even, or the third is
  not 1; it succeeds exactly when both spatial extents are odd and the depth is 1.
\<close>

theorem SDN_new_fails_iff_even_or_deep:
  "(SDN_new K th heap = Inl InvalidKernelShapeError) =
     (even (fst (dims K)) \<or> even (fst (snd (dims K))) \<or> snd (snd (dims K)) \<noteq> 1) \<and>
   (\<exists>st. SDN_new K th heap = Inr st) =
     (odd (fst (dims K)) \<and> odd (fst (snd (dims K))) \<and> snd (snd (dims K)) = 1)"
  by (auto simp: SDN_new_error_iff SDN_new_success) (auto simp: SDN_new_def c_rem_2_zero split: if_splits)

theorem SDN_new_fails_iff_even_or_deep_witness:
  "SDN_new \<lparr>buf = 0, dims = (4, 1, 1), vals = [1, 1, 1, 1]\<rparr> 0 0 = Inl InvalidKernelShapeError \<and>
   SDN_new \<lparr>buf = 0, dims = (3, 1, 2), vals = [1, 1, 1, 1, 1, 1]\<rparr> 0 0 =
     Inl InvalidKernelShapeError \<and>
   (\<exists>st. SDN_new kernel_3x3 0 0 = Inr st)"
  using SDN_new_fails_iff_even_or_deep [of "\<lparr>buf = 0, dims = (4, 1, 1), vals = [1, 1, 1, 1]\<rparr>" 0 0]
    SDN_new_fails_iff_even_or_deep [of "\<lparr>buf = 0, dims = (3, 1, 2), vals = [1, 1, 1, 1, 1, 1]\<rparr>" 0 0]
    SDN_new_fails_iff_even_or_deep [of kernel_3x3 0 0]
  by (simp add: kernel_3x3_def)

text \<open>
  C10.  On the first \<open>init\<close> of a constructed stage, for an input of positive extents
  with \<open>n_feats\<close> channels, the normalized kernel is a tensor of the kernel's extents
  whose elements are the kernel's elements divided by \<open>sum * sqrt n_feats\<close> when the
  kernel's second extent is 1, and by \<open>sum * n_feats\<close> otherwise, where \<open>sum\<close> is the sum
  of the kernel's elements.
\<close>

theorem kernel_norm_divisor:
  assumes "SDN_new K th heap = Inr (s, heap1)"
      and "0 < fst (dims inp)" "0 < fst (snd (dims inp))" "0 < snd (snd (dims inp))"
  shows "\<exists>st' kn. SDN_init (FloatTensorData inp) (s, heap1) = Inr st' \<and>
           SDN_kernel_norm (fst st') = Some kn \<and> dims kn = dims K \<and>
           (fst (snd (dims K)) = 1 \<longrightarrow>
              vals kn = map (\<lambda>x. x / (sum_list (vals K) * sqrt (real_of_int (snd (snd (dims inp))))))
                          (vals K)) \<and>
           (fst (snd (dims K)) \<noteq> 1 \<longrightarrow>
              vals kn = map (\<lambda>x. x / (sum_list (vals K) * real_of_int (snd (snd (dims inp)))))
                          (vals K))"
  using SDN_first_init [OF assms] by auto

theorem kernel_norm_divisor_witness:
  "(\<exists>st0 st' kn. SDN_new kernel_3 0 5 = Inr st0 \<and>
      SDN_init (FloatTensorData image_1x1x4) st0 = Inr st' \<and>
      SDN_kernel_norm (fst st') = Some kn \<and> vals kn = [1 / 8, 1 / 4, 1 / 8]) \<and>
   (\<exists>st0 st' kn. SDN_new kernel_3x3 0 5 = Inr st0 \<and>
      SDN_init (FloatTensorData image_1x1x4) st0 = Inr st' \<and>
      SDN_kernel_norm (fst st') = Some kn \<and>
      vals kn = [1 / 40, 1 / 40, 1 / 40, 1 / 40, 1 / 20, 1 / 40, 1 / 40, 1 / 40, 1 / 40])"
  using kernel_norm_divisor [OF kernel_3_new, of image_1x1x4]
    kernel_norm_divisor [OF kernel_3x3_new, of image_1x1x4]
    kernel_3_new kernel_3x3_new
  by (auto simp: image_1x1x4_def kernel_3_def kernel_3x3_def)

section \<open>Properties of the Linear stage\<close>

declare partial_dot.simps [simp del] reduce_loop.simps [simp del]

lemma forwardProp_preserves:
  assumes "Linear_forwardProp dev s x = Inr s'"
  shows "\<exists>out out'. Linear_output s = Some out \<and> Linear_output s' = Some out' \<and>
           storage out' = storage out \<and> tsize out' = tsize out \<and>
           length (data out') = unat (Linear_n_outputs s) \<and>
           Linear_n_outputs s' = Linear_n_outputs s \<and> Linear_n_inputs s' = Linear_n_inputs s \<and>
           Linear_weights s' = Linear_weights s \<and> Linear_biases s' = Linear_biases s"
  using assms
  by (auto simp: Linear_forwardProp_def Accum_def MatVecMultThreads_def
      split: sum.splits option.splits prod.splits)

lemma forwardProp_seq_preserves:
  assumes "Linear_forwardProp_seq dev s xs = Inr s'"
      and "Linear_output s = Some out" and "length (data out) = unat (Linear_n_outputs s)"
  shows "\<exists>out'. Linear_output s' = Some out' \<and> storage out' = storage out \<and>
           tsize out' = tsize out \<and> length (data out') = length (data out) \<and>
           Linear_n_outputs s' = Linear_n_outputs s \<and> Linear_n_inputs s' = Linear_n_inputs s"
  using assms
proof (induction xs arbitrary: s out)
  case Nil
  then show ?case by simp
next
  case (Cons x xs)
  from Cons.prems(1) obtain s1 where f: "Linear_forwardProp dev s x = Inr s1"
      and r: "Linear_forwardProp_seq dev s1 xs = Inr s'"
    by (auto split: sum.splits)
  from forwardProp_preserves [OF f] Cons.prems(2)
  obtain out1 where o: "Linear_output s1 = Some out1" "storage out1 = storage out"
      "tsize out1 = tsize out" "length (data out1) = unat (Linear_n_outputs s)"
      "Linear_n_outputs s1 = Linear_n_outputs s" "Linear_n_inputs s1 = Linear_n_inputs s"
    by auto
  from Cons.IH [OF r o(1)] o Cons.prems(3) show ?case by auto
qed

lemma forwardProp_succeeds:
  assumes n: "1 \<le> unat (Linear_n_outputs s)" "unat (Linear_n_outputs s) < 2147483648"
      and dev: "1 \<le> unat (getMaxWorkitemSize dev 1)"
        "unat (getMaxWorkitemSize dev 1) < 2147483648"
        "1 \<le> unat (queryMaxWorkgroupSizeForCurKernel dev)"
        "unat (queryMaxWorkgroupSizeForCurKernel dev) < 2147483648"
        "unat (queryMaxWorkgroupSizeForCurKernel dev) \<le> unat (getMaxWorkgroupSize dev)"
        "unat (queryMaxWorkgroupSizeForCurKernel dev) div
           spec_column_factor (unat (getMaxWorkitemSize dev 1))
             (unat (queryMaxWorkgroupSizeForCurKernel dev))
         \<le> unat (getMaxWorkitemSize dev 0)"
      and out: "Linear_output s = Some out"
      and x: "tsize t = [Linear_n_inputs s]"
  shows "\<exists>s'. Linear_forwardProp dev s (TensorData t) = Inr s'"
proof -
  obtain p l where wp: "work_partition dev (Linear_n_outputs s) = Inr ([Linear_n_outputs s, p], [l, p])"
      and leg: "legal_local_size dev [Linear_n_outputs s, p] [l, p]"
    using work_partition_legal [OF n dev] by blast
  show ?thesis
    using wp leg out x by (simp add: Linear_forwardProp_def Linear_init_def launch_check_def)
qed

lemma forwardProp_seq_succeeds:
  assumes n: "1 \<le> unat (Linear_n_outputs s)" "unat (Linear_n_outputs s) < 2147483648"
      and dev: "1 \<le> unat (getMaxWorkitemSize dev 1)"
        "unat (getMaxWorkitemSize dev 1) < 2147483648"
        "1 \<le> unat (queryMaxWorkgroupSizeForCurKernel dev)"
        "unat (queryMaxWorkgroupSizeForCurKernel dev) < 2147483648"
        "unat (queryMaxWorkgroupSizeForCurKernel dev) \<le> unat (getMaxWorkgroupSize dev)"
        "unat (queryMaxWorkgroupSizeForCurKernel dev) div
           spec_column_factor (unat (getMaxWorkitemSize dev 1))
             (unat (queryMaxWorkgroupSizeForCurKernel dev))
         \<le> unat (getMaxWorkitemSize dev 0)"
      and out: "Linear_output s \<noteq> None"
      and xs: "\<forall>t\<in>set ts. tsize t = [Linear_n_inputs s]"
  shows "\<exists>s'. Linear_forwardProp_seq dev s (map TensorData ts) = Inr s'"
  using n out xs
proof (induction ts arbitrary: s)
  case Nil
  then show ?case by simp
next
  case (Cons t ts)
  from Cons.prems(3) obtain out where o: "Linear_output s = Some out" by auto
  have "tsize t = [Linear_n_inputs s]" using Cons.prems(4) by simp
  from forwardProp_succeeds [OF Cons.prems(1,2) dev o this]
  obtain s1 where f: "Linear_forwardProp dev s (TensorData t) = Inr s1" by blast
  from forwardProp_preserves [OF f]
  have k: "Linear_output s1 \<noteq> None" "Linear_n_outputs s1 = Linear_n_outputs s"
      "Linear_n_inputs s1 = Linear_n_inputs s"
    by auto
  have "\<exists>s'. Linear_forwardProp_seq dev s1 (map TensorData ts) = Inr s'"
    using Cons.IH [of s1] Cons.prems k by simp
  then show ?case using f by simp
qed

lemma Linear_new_ok:
  "1 \<le> unat n_out \<Longrightarrow> 1 \<le> unat n_in \<Longrightarrow>
   Linear_new n_in n_out heap =
     Inr (\<lparr>Linear_n_inputs = n_in, Linear_n_outputs = n_out,
           Linear_output = Some \<lparr>storage = heap, tsize = [n_out],
                                   data = replicate (unat n_out) 0\<rparr>,
           Linear_weights = \<lparr>storage = Suc heap, tsize = [n_out, n_in],
                              data = replicate (unat n_out * unat n_in) 0\<rparr>,
           Linear_biases = \<lparr>storage = Suc (Suc heap), tsize = [n_out],
                             data = replicate (unat n_out) 0\<rparr>\<rparr>, Suc (Suc (Suc heap)))"
  by (auto simp: Linear_new_def Tensor_new_def)

lemma Linear_new_Inr:
  "Linear_new n_in n_out heap = Inr (l, heap1) \<Longrightarrow>
     l = \<lparr>Linear_n_inputs = n_in, Linear_n_outputs = n_out,
           Linear_output = Some \<lparr>storage = heap, tsize = [n_out],
                                   data = replicate (unat n_out) 0\<rparr>,
           Linear_weights = \<lparr>storage = Suc heap, tsize = [n_out, n_in],
                              data = replicate (unat n_out * unat n_in) 0\<rparr>,
           Linear_biases = \<lparr>storage = Suc (Suc heap), tsize = [n_out],
                             data = replicate (unat n_out) 0\<rparr>\<rparr> \<and>
     heap1 = Suc (Suc (Suc heap)) \<and> n_out \<noteq> 0 \<and> n_in \<noteq> 0"
  by (auto simp: Linear_new_def Tensor_new_def split: if_splits)


lemma linear_3_1_new:
  "Linear_new 3 1 0 =
     Inr (\<lparr>Linear_n_inputs = 3, Linear_n_outputs = 1,
           Linear_output = Some \<lparr>storage = 0, tsize = [1], data = [0]\<rparr>,
           Linear_weights = \<lparr>storage = 1, tsize = [1, 3], data = [0, 0, 0]\<rparr>,
           Linear_biases = \<lparr>storage = 2, tsize = [1], data = [0]\<rparr>\<rparr>, 3)"
proof -
  have "replicate 3 (0::real) = [0, 0, 0]" by (simp add: numeral_3_eq_3)
  then show ?thesis by (simp add: Linear_new_def Tensor_new_def)
qed

lemma linear_3_1_set:
  "setWeights \<lparr>Linear_n_inputs = 3, Linear_n_outputs = 1,
           Linear_output = Some \<lparr>storage = 0, tsize = [1], data = [0]\<rparr>,
           Linear_weights = \<lparr>storage = 1, tsize = [1, 3], data = [0, 0, 0]\<rparr>,
           Linear_biases = \<lparr>storage = 2, tsize = [1], data = [0]\<rparr>\<rparr> [1, 1, 1] =
     Inr \<lparr>Linear_n_inputs = 3, Linear_n_outputs = 1,
           Linear_output = Some \<lparr>storage = 0, tsize = [1], data = [0]\<rparr>,
           Linear_weights = \<lparr>storage = 1, tsize = [1, 3], data = [1, 1, 1]\<rparr>,
           Linear_biases = \<lparr>storage = 2, tsize = [1], data = [0]\<rparr>\<rparr>"
  by (simp add: setWeights_def setData_def)

lemma linear_3_1_bias:
  "setBiases \<lparr>Linear_n_inputs = 3, Linear_n_outputs = 1,
           Linear_output = Some \<lparr>storage = 0, tsize = [1], data = [0]\<rparr>,
           Linear_weights = \<lparr>storage = 1, tsize = [1, 3], data = [1, 1, 1]\<rparr>,
           Linear_biases = \<lparr>storage = 2, tsize = [1], data = [0]\<rparr>\<rparr> [0] =
     Inr \<lparr>Linear_n_inputs = 3, Linear_n_outputs = 1,
           Linear_output = Some \<lparr>storage = 0, tsize = [1], data = [0]\<rparr>,
           Linear_weights = \<lparr>storage = 1, tsize = [1, 3], data = [1, 1, 1]\<rparr>,
           Linear_biases = \<lparr>storage = 2, tsize = [1], data = [0]\<rparr>\<rparr>"
  by (simp add: setBiases_def setData_def)

lemma device_3_partition: "work_partition device_3 1 = Inr ([1, 3], [1, 3])"
  by (simp add: work_partition_def device_3_def min_int32_def shrink_local_size.simps)

lemma device_3_launch: "launch_check device_3 [1, 3] [1, 3] = Inr ()"
  by (simp add: launch_check_def legal_local_size_def divides_evenly_def device_3_def)

lemma matvec_threads_3: "MatVecMultThreads [1, 1, 1] [1, 1, 1] (Suc 0) 3 (Suc 0) 3 = [2]"
  by (simp add: MatVecMultThreads_def work_stored_def reduce_loop.simps reduce_step_def
      partial_dot.simps upt_rec)

lemma matvec_bias_3: "matvec_bias [1, 1, 1] [1, 1, 1] [0] 1 3 = [3]"
  by (simp add: matvec_bias_def upt_rec lessThan_nat_numeral lessThan_Suc)

lemma linear_3_1_forward:
  "Linear_forwardProp device_3
     \<lparr>Linear_n_inputs = 3, Linear_n_outputs = 1,
           Linear_output = Some \<lparr>storage = 0, tsize = [1], data = [0]\<rparr>,
           Linear_weights = \<lparr>storage = 1, tsize = [1, 3], data = [1, 1, 1]\<rparr>,
           Linear_biases = \<lparr>storage = 2, tsize = [1], data = [0]\<rparr>\<rparr> (TensorData ones_3) =
   Inr \<lparr>Linear_n_inputs = 3, Linear_n_outputs = 1,
           Linear_output = Some \<lparr>storage = 0, tsize = [1], data = [2]\<rparr>,
           Linear_weights = \<lparr>storage = 1, tsize = [1, 3], data = [1, 1, 1]\<rparr>,
           Linear_biases = \<lparr>storage = 2, tsize = [1], data = [0]\<rparr>\<rparr>"
  by (simp add: Linear_forwardProp_def Linear_init_def ones_3_def device_3_partition
      device_3_launch matvec_threads_3 Accum_def)


subsection \<open>The threaded kernel with a column factor that is a power of two\<close>

text \<open>
  With \<open>cols = 2^m\<close> work-items per row the halving reduction adds every partial sum,
  the strided partial sums cover every column once, and the kernel followed by \<open>Accum\<close>
  leaves \<open>W \<cdot> x + b\<close> in the output.
\<close>

lemma strided_set_step:
  fixes stride k N :: nat
  assumes "0 < stride" "k < N"
  shows "{j. k \<le> j \<and> j < N \<and> stride dvd (j - k)} =
         insert k {j. k + stride \<le> j \<and> j < N \<and> stride dvd (j - (k + stride))}"
proof (intro set_eqI iffI)
  fix j assume "j \<in> {j. k \<le> j \<and> j < N \<and> stride dvd (j - k)}"
  then have a: "k \<le> j" "j < N" "stride dvd (j - k)" by simp_all
  show "j \<in> insert k {j. k + stride \<le> j \<and> j < N \<and> stride dvd (j - (k + stride))}"
  proof (cases "j = k")
    case True then show ?thesis by simp
  next
    case False
    then have "0 < j - k" using a(1) by simp
    then have "stride \<le> j - k" using a(3) by (simp add: dvd_imp_le)
    moreover have "stride dvd (j - k - stride)" using a(3) by (rule dvd_diff_nat) simp
    ultimately have "k + stride \<le> j" "stride dvd (j - (k + stride))"
      using a(1) by (simp_all add: diff_diff_left)
    then show ?thesis using a(2) by simp
  qed
next
  fix j assume "j \<in> insert k {j. k + stride \<le> j \<and> j < N \<and> stride dvd (j - (k + stride))}"
  then consider "j = k" | "k + stride \<le> j" "j < N" "stride dvd (j - (k + stride))" by auto
  then show "j \<in> {j. k \<le> j \<and> j < N \<and> stride dvd (j - k)}"
  proof cases
    case 1 then show ?thesis using assms by simp
  next
    case 2
    have "j - k = (j - (k + stride)) + stride" using 2(1) by simp
    then have "stride dvd (j - k)" using 2(3) by simp
    then show ?thesis using 2 by simp
  qed
qed

lemma partial_dot_sum:
  "0 < stride \<Longrightarrow>
   partial_dot A X M N row stride k s =
     s + (\<Sum>j\<in>{j. k \<le> j \<and> j < N \<and> stride dvd (j - k)}. A ! (row + M * j) * X ! j)"
proof (induction A X M N row stride k s rule: partial_dot.induct)
  case (1 A X M N row stride k s)
  show ?case
  proof (cases "k < N")
    case True
    have fin: "finite {j. k + stride \<le> j \<and> j < N \<and> stride dvd (j - (k + stride))}" by simp
    have notin: "k \<notin> {j. k + stride \<le> j \<and> j < N \<and> stride dvd (j - (k + stride))}"
      using "1.prems" by simp
    have "partial_dot A X M N row stride k s =
            partial_dot A X M N row stride (k + stride) (s + A ! (row + M * k) * X ! k)"
      using True "1.prems" by (subst partial_dot.simps) simp
    also have "\<dots> = s + A ! (row + M * k) * X ! k +
        (\<Sum>j\<in>{j. k + stride \<le> j \<and> j < N \<and> stride dvd (j - (k + stride))}.
            A ! (row + M * j) * X ! j)"
      using "1.IH" True "1.prems" by simp
    also have "\<dots> = s + (\<Sum>j\<in>{j. k \<le> j \<and> j < N \<and> stride dvd (j - k)}.
            A ! (row + M * j) * X ! j)"
      unfolding strided_set_step [OF "1.prems" True]
      by (simp add: sum.insert [OF fin notin])
    finally show ?thesis .
  next
    case False
    then have e: "{j. k \<le> j \<and> j < N \<and> stride dvd (j - k)} = {}" by auto
    have p: "partial_dot A X M N row stride k s = s"
      using False by (subst partial_dot.simps) simp
    show ?thesis unfolding e p by simp
  qed
qed

lemma strided_set_mod:
  fixes jj cols N :: nat
  assumes "jj < cols"
  shows "{j. jj \<le> j \<and> j < N \<and> cols dvd (j - jj)} = {j \<in> {..<N}. j mod cols = jj}"
proof (intro set_eqI iffI)
  fix j assume "j \<in> {j. jj \<le> j \<and> j < N \<and> cols dvd (j - jj)}"
  then have a: "jj \<le> j" "j < N" "cols dvd (j - jj)" by simp_all
  from a(3) obtain q where "j - jj = cols * q" by (auto simp: dvd_def)
  then have "j = jj + cols * q" using a(1) by simp
  then have "j mod cols = jj" using assms by simp
  then show "j \<in> {j \<in> {..<N}. j mod cols = jj}" using a(2) by simp
next
  fix j assume "j \<in> {j \<in> {..<N}. j mod cols = jj}"
  then have a: "j < N" "j mod cols = jj" by simp_all
  have "jj \<le> j" using a(2) by (metis mod_less_eq_dividend)
  moreover have "cols dvd (j - jj)" using a(2) by (metis dvd_minus_mod)
  ultimately show "j \<in> {j. jj \<le> j \<and> j < N \<and> cols dvd (j - jj)}" using a(1) by simp
qed

lemma columns_cover:
  fixes cols N :: nat
  assumes "0 < cols"
  shows "(\<Sum>jj<cols. \<Sum>j\<in>{j. jj \<le> j \<and> j < N \<and> cols dvd (j - jj)}. (t j :: real)) = (\<Sum>j<N. t j)"
proof -
  have "(\<Sum>jj<cols. \<Sum>j\<in>{j. jj \<le> j \<and> j < N \<and> cols dvd (j - jj)}. t j) =
        (\<Sum>jj\<in>{..<cols}. \<Sum>j\<in>{j \<in> {..<N}. j mod cols = jj}. t j)"
    by (intro sum.cong refl) (simp add: strided_set_mod)
  also have "\<dots> = (\<Sum>j\<in>{..<N}. t j)"
    using assms by (intro sum.group) auto
  finally show ?thesis .
qed

lemma reduce_step_nth:
  assumes "ii < rows" "jj < c" "ii + rows * (jj + c) < length w"
  shows "reduce_step rows c w ! (ii + rows * jj) = w ! (ii + rows * jj) + w ! (ii + rows * (jj + c))"
proof -
  have "ii + rows * jj \<le> ii + rows * (jj + c)" by simp
  then have lt: "ii + rows * jj < length w" using assms(3) by linarith
  have dv: "(ii + rows * jj) div rows = jj" using assms(1) by simp
  show ?thesis
    using lt assms(2) by (simp add: reduce_step_def dv distrib_left add.assoc)
qed

lemma length_reduce_step: "length (reduce_step rows c w) = length w"
  by (simp add: reduce_step_def)

lemma reduce_loop_sum:
  "ii < rows \<Longrightarrow> rows * 2 ^ m \<le> length w \<Longrightarrow>
   reduce_loop rows (2 ^ m) w ! ii = (\<Sum>jj<2 ^ m. w ! (ii + rows * jj))"
proof (induction m arbitrary: w)
  case 0
  then show ?case by (simp add: reduce_loop.simps)
next
  case (Suc m)
  define w' where "w' = reduce_step rows (2 ^ m) w"
  have len: "rows * 2 ^ m \<le> length w'"
    using Suc.prems(2) by (simp add: w'_def length_reduce_step)
  have nth: "w' ! (ii + rows * jj) = w ! (ii + rows * jj) + w ! (ii + rows * (jj + 2 ^ m))"
    if "jj < 2 ^ m" for jj
  proof -
    have "jj + 2 ^ m + 1 \<le> 2 ^ Suc m" using that by simp
    then have "rows * (jj + 2 ^ m + 1) \<le> rows * 2 ^ Suc m" by (rule mult_le_mono2)
    moreover have "ii + rows * (jj + 2 ^ m) < rows * (jj + 2 ^ m + 1)"
      using Suc.prems(1) by simp
    ultimately have "ii + rows * (jj + 2 ^ m) < length w" using Suc.prems(2) by linarith
    then show ?thesis unfolding w'_def using Suc.prems(1) that by (intro reduce_step_nth)
  qed
  have "(1::nat) < 2 ^ Suc m" by (rule power_gt1) simp
  then have "reduce_loop rows (2 ^ Suc m) w = reduce_loop rows (2 ^ m) w'"
    by (subst reduce_loop.simps) (simp add: w'_def)
  then have "reduce_loop rows (2 ^ Suc m) w ! ii = (\<Sum>jj<2 ^ m. w' ! (ii + rows * jj))"
    using Suc.IH [OF Suc.prems(1) len] by simp
  also have "\<dots> = (\<Sum>jj<2 ^ m. w ! (ii + rows * jj) + w ! (ii + rows * (jj + 2 ^ m)))"
    by (intro sum.cong refl) (simp add: nth)
  also have "\<dots> = (\<Sum>jj<2 ^ m. w ! (ii + rows * jj)) + (\<Sum>jj<2 ^ m. w ! (ii + rows * (jj + 2 ^ m)))"
    by (simp add: sum.distrib)
  also have "(\<Sum>jj<2 ^ m. w ! (ii + rows * (jj + 2 ^ m))) =
             (\<Sum>jj\<in>{2 ^ m..<2 ^ m + 2 ^ m}. w ! (ii + rows * jj))"
    using sum.shift_bounds_nat_ivl [of "\<lambda>jj. w ! (ii + rows * jj)" 0 "2 ^ m" "2 ^ m"]
    by (simp add: lessThan_atLeast0 add.commute)
  also have "(\<Sum>jj<2 ^ m. w ! (ii + rows * jj)) + (\<Sum>jj\<in>{2 ^ m..<2 ^ m + 2 ^ m}. w ! (ii + rows * jj)) =
             (\<Sum>jj<2 ^ Suc m. w ! (ii + rows * jj))"
    using sum.atLeastLessThan_concat [of 0 "2 ^ m" "2 ^ m + 2 ^ m" "\<lambda>jj. w ! (ii + rows * jj)"]
    by (simp add: lessThan_atLeast0 mult_2)
  finally show ?case .
qed


lemma work_stored_nth:
  assumes "ii < rows" "jj < cols"
  shows "work_stored A X M N g rows cols ! (ii + rows * jj) =
           partial_dot A X M N (g * rows + ii) cols jj 0"
proof -
  have "rows * (jj + 1) \<le> rows * cols" using assms(2) by (intro mult_le_mono2) simp
  moreover have "ii + rows * jj < rows * (jj + 1)" using assms(1) by simp
  ultimately have lt: "ii + rows * jj < rows * cols" by linarith
  have "(ii + rows * jj) mod rows = ii" "(ii + rows * jj) div rows = jj"
    using assms(1) by simp_all
  then show ?thesis using lt by (simp add: work_stored_def)
qed

lemma MatVecMultThreads_power_of_two:
  assumes "0 < rows" "i < M"
  shows "MatVecMultThreads A X M N rows (2 ^ m) ! i = (\<Sum>k<N. A ! (i + M * k) * X ! k)"
proof -
  let ?w = "work_stored A X M N (i div rows) rows (2 ^ m)"
  have ii: "i mod rows < rows" using assms(1) by simp
  have len: "rows * 2 ^ m \<le> length ?w" by (simp add: work_stored_def)
  have row: "i div rows * rows + i mod rows = i" by simp
  have "MatVecMultThreads A X M N rows (2 ^ m) ! i = reduce_loop rows (2 ^ m) ?w ! (i mod rows)"
    using assms(2) by (simp add: MatVecMultThreads_def)
  also have "\<dots> = (\<Sum>jj<2 ^ m. ?w ! (i mod rows + rows * jj))"
    using ii len by (rule reduce_loop_sum)
  also have "\<dots> = (\<Sum>jj<2 ^ m. partial_dot A X M N i (2 ^ m) jj 0)"
    by (intro sum.cong refl) (simp add: work_stored_nth [OF ii] row)
  also have "\<dots> = (\<Sum>jj<2 ^ m. \<Sum>j\<in>{j. jj \<le> j \<and> j < N \<and> 2 ^ m dvd (j - jj)}.
                        A ! (i + M * j) * X ! j)"
    by (intro sum.cong refl) (simp add: partial_dot_sum)
  also have "\<dots> = (\<Sum>k<N. A ! (i + M * k) * X ! k)"
    by (rule columns_cover) simp
  finally show ?thesis .
qed

lemma length_MatVecMultThreads: "length (MatVecMultThreads A X M N rows cols) = M"
  by (simp add: MatVecMultThreads_def)

lemma Accum_MatVecMultThreads_power_of_two:
  assumes "0 < rows"
  shows "Accum (MatVecMultThreads A X M N rows (2 ^ m)) B = matvec_bias A X B M N"
  unfolding Accum_def matvec_bias_def length_MatVecMultThreads
  by (rule map_cong) (simp_all add: MatVecMultThreads_power_of_two [OF assms])

lemma forwardProp_power_of_two_columns:
  assumes f: "Linear_forwardProp dev s (TensorData t) = Inr s'"
      and wp: "work_partition dev (Linear_n_outputs s) = Inr (g, [l, p])"
      and p: "unat p = 2 ^ m"
  shows "\<exists>out. Linear_output s' = Some out \<and>
           data out = matvec_bias (data (Linear_weights s)) (data t) (data (Linear_biases s))
                        (unat (Linear_n_outputs s)) (unat (Linear_n_inputs s))"
proof -
  from f wp obtain out where o: "Linear_output s = Some out"
      and lc: "launch_check dev g [l, p] = Inr ()"
      and s': "s' = s\<lparr>Linear_output := Some (out\<lparr>data :=
                 Accum (MatVecMultThreads (data (Linear_weights s)) (data t)
                          (unat (Linear_n_outputs s)) (unat (Linear_n_inputs s))
                          (unat l) (unat p))
                       (data (Linear_biases s))\<rparr>)\<rparr>"
    by (auto simp: Linear_forwardProp_def Linear_init_def
        split: sum.splits option.splits if_splits TorchData.splits)
  from lc have "legal_local_size dev g [l, p]"
    by (auto simp: launch_check_def split: if_splits)
  then have "0 < unat l"
    by (auto simp: legal_local_size_def list_all2_Cons2 divides_evenly_def)
  then show ?thesis
    unfolding s' p by (simp add: Accum_MatVecMultThreads_power_of_two)
qed

text \<open>
  C3.  The code does not compute \<open>W \<cdot> x + b\<close> for every device-limit configuration.
  On a device whose \<open>maxWorkitemSize[1]\<close> is 3 the column factor is 3; for the 1 by 3
  matrix of ones, the zero bias and the input of three ones, the three work-items store
  the partial sums 1, 1, 1, the reduction (which halves the column count: 3, then 1)
  adds only the second to the first, and \<open>forwardProp\<close> leaves 2 in the output, where
  \<open>W \<cdot> x + b\<close> is 3.  All values are small integers, on which \<open>float\<close> arithmetic is exact.
  (For a column factor that is a power of two the output is \<open>W \<cdot> x + b\<close>:
  \<open>forwardProp_power_of_two_columns\<close>.)
\<close>

theorem forwardProp_drops_partial_sum:
  "\<exists>l0 l1 l2 l3 out.
      Linear_new 3 1 0 = Inr (l0, 3) \<and> setWeights l0 [1, 1, 1] = Inr l1 \<and>
      setBiases l1 [0] = Inr l2 \<and>
      work_partition device_3 (Linear_n_outputs l2) = Inr ([1, 3], [1, 3]) \<and>
      Linear_forwardProp device_3 l2 (TensorData ones_3) = Inr l3 \<and>
      Linear_output l3 = Some out \<and> data out = [2] \<and>
      matvec_bias (data (Linear_weights l2)) (data ones_3) (data (Linear_biases l2)) 1 3 = [3]"
  using linear_3_1_new linear_3_1_set linear_3_1_bias linear_3_1_forward matvec_bias_3
    device_3_partition
  by (simp add: ones_3_def)

text \<open>
  C9.  The constructor allocates the output once, as a tensor of the single extent
  \<open>n_outputs\<close>; after any number of \<open>forwardProp\<close> calls the output is in the same
  buffer, with the same extent and element count; and for a row count and device
  limits in range (the work-item limit of the first dimension included) and inputs of
  the single extent \<open>n_inputs\<close>, every call succeeds.
\<close>

theorem Linear_output_allocated_once:
  assumes "Linear_new n_in n_out heap = Inr (s, heap1)"
  shows "(\<exists>out. Linear_output s = Some out \<and> storage out = heap \<and> tsize out = [n_out] \<and>
            length (data out) = unat n_out) \<and>
         (\<forall>s'. Linear_forwardProp_seq dev s xs = Inr s' \<longrightarrow>
            (\<exists>out'. Linear_output s' = Some out' \<and> storage out' = heap \<and>
               tsize out' = [n_out] \<and> length (data out') = unat n_out)) \<and>
         (unat n_out < 2147483648 \<and>
          1 \<le> unat (getMaxWorkitemSize dev 1) \<and> unat (getMaxWorkitemSize dev 1) < 2147483648 \<and>
          1 \<le> unat (queryMaxWorkgroupSizeForCurKernel dev) \<and>
          unat (queryMaxWorkgroupSizeForCurKernel dev) < 2147483648 \<and>
          unat (queryMaxWorkgroupSizeForCurKernel dev) \<le> unat (getMaxWorkgroupSize dev) \<and>
          unat (queryMaxWorkgroupSizeForCurKernel dev) div
            spec_column_factor (unat (getMaxWorkitemSize dev 1))
              (unat (queryMaxWorkgroupSizeForCurKernel dev))
          \<le> unat (getMaxWorkitemSize dev 0) \<and>
          (\<forall>t\<in>set ts. tsize t = [n_in]) \<longrightarrow>
            (\<exists>s'. Linear_forwardProp_seq dev s (map TensorData ts) = Inr s'))"
proof -
  let ?out = "\<lparr>storage = heap, tsize = [n_out], data = replicate (unat n_out) 0\<rparr>"
  from Linear_new_Inr [OF assms]
  have o: "Linear_output s = Some ?out" and n: "Linear_n_outputs s = n_out"
      "Linear_n_inputs s = n_in" "n_out \<noteq> 0"
    by simp_all
  have pos: "1 \<le> unat n_out" using n(3) by (simp add: Suc_leI unat_gt_0)
  have a: "\<exists>out. Linear_output s = Some out \<and> storage out = heap \<and> tsize out = [n_out] \<and>
            length (data out) = unat n_out"
    using o by simp
  have b: "\<forall>s'. Linear_forwardProp_seq dev s xs = Inr s' \<longrightarrow>
            (\<exists>out'. Linear_output s' = Some out' \<and> storage out' = heap \<and>
               tsize out' = [n_out] \<and> length (data out') = unat n_out)"
  proof (intro allI impI)
    fix s' assume "Linear_forwardProp_seq dev s xs = Inr s'"
    from forwardProp_seq_preserves [OF this o] n
    show "\<exists>out'. Linear_output s' = Some out' \<and> storage out' = heap \<and>
               tsize out' = [n_out] \<and> length (data out') = unat n_out"
      by auto
  qed
  have c: "unat n_out < 2147483648 \<and>
          1 \<le> unat (getMaxWorkitemSize dev 1) \<and> unat (getMaxWorkitemSize dev 1) < 2147483648 \<and>
          1 \<le> unat (queryMaxWorkgroupSizeForCurKernel dev) \<and>
          unat (queryMaxWorkgroupSizeForCurKernel dev) < 2147483648 \<and>
          unat (queryMaxWorkgroupSizeForCurKernel dev) \<le> unat (getMaxWorkgroupSize dev) \<and>
          unat (queryMaxWorkgroupSizeForCurKernel dev) div
            spec_column_factor (unat (getMaxWorkitemSize dev 1))
              (unat (queryMaxWorkgroupSizeForCurKernel dev))
          \<le> unat (getMaxWorkitemSize dev 0) \<and>
          (\<forall>t\<in>set ts. tsize t = [n_in]) \<longrightarrow>
            (\<exists>s'. Linear_forwardProp_seq dev s (map TensorData ts) = Inr s')"
  proof (intro impI, elim conjE)
    assume h: "unat n_out < 2147483648"
      "1 \<le> unat (getMaxWorkitemSize dev 1)" "unat (getMaxWorkitemSize dev 1) < 2147483648"
      "1 \<le> unat (queryMaxWorkgroupSizeForCurKernel dev)"
      "unat (queryMaxWorkgroupSizeForCurKernel dev) < 2147483648"
      "unat (queryMaxWorkgroupSizeForCurKernel dev) \<le> unat (getMaxWorkgroupSize dev)"
      "unat (queryMaxWorkgroupSizeForCurKernel dev) div
         spec_column_factor (unat (getMaxWorkitemSize dev 1))
           (unat (queryMaxWorkgroupSizeForCurKernel dev))
       \<le> unat (getMaxWorkitemSize dev 0)"
      "\<forall>t\<in>set ts. tsize t = [n_in]"
    have "Linear_output s \<noteq> None" using o by simp
    moreover have "\<forall>t\<in>set ts. tsize t = [Linear_n_inputs s]" using h(8) n(2) by simp
    ultimately show "\<exists>s'. Linear_forwardProp_seq dev s (map TensorData ts) = Inr s'"
      using forwardProp_seq_succeeds [of s dev ts] pos h(1-7) n(1) by simp
  qed
  from a b c show ?thesis by blast
qed

theorem Linear_output_allocated_once_witness:
  "\<exists>s s' out. Linear_new 3 1 0 = Inr (s, 3) \<and>
      Linear_forwardProp_seq device_256 s [TensorData ones_3, TensorData ones_3] = Inr s' \<and>
      Linear_output s' = Some out \<and> storage out = 0 \<and> tsize out = [1]"
proof -
  let ?s = "\<lparr>Linear_n_inputs = 3, Linear_n_outputs = 1,
           Linear_output = Some \<lparr>storage = 0, tsize = [1], data = [0]\<rparr>,
           Linear_weights = \<lparr>storage = 1, tsize = [1, 3], data = [0, 0, 0]\<rparr>,
           Linear_biases = \<lparr>storage = 2, tsize = [1], data = [0]\<rparr>\<rparr>"
  have "\<forall>t\<in>set [ones_3, ones_3]. tsize t = [3]" by (simp add: ones_3_def)
  then obtain s' where f: "Linear_forwardProp_seq device_256 ?s
                             (map TensorData [ones_3, ones_3]) = Inr s'"
    using Linear_output_allocated_once
            [OF linear_3_1_new, of device_256 "map TensorData [ones_3, ones_3]" "[ones_3, ones_3]"]
    by (auto simp: device_256_def spec_column_factor_def)
  then obtain out where "Linear_output s' = Some out" "storage out = 0" "tsize out = [1]"
    using Linear_output_allocated_once
            [OF linear_3_1_new, of device_256 "map TensorData [ones_3, ones_3]" "[ones_3, ones_3]"]
    by auto
  with f linear_3_1_new show ?thesis by auto
qed

section \<open>Properties of the loaders\<close>

lemma length_uninit: "length (uninit junk n) = n"
  by (simp add: uninit_def)

lemma read_enough:
  "\<not> failbit f \<Longrightarrow> n \<le> length (content f) \<Longrightarrow>
   ifstream_read f n (uninit junk n) = (f\<lparr>content := drop n (content f)\<rparr>, take n (content f))"
  by (simp add: ifstream_read_def length_uninit)

lemma length_read:
  "length dest = n \<Longrightarrow> length (snd (ifstream_read f n dest)) = n"
  by (auto simp: ifstream_read_def)

lemma failbit_read:
  "failbit (fst (ifstream_read f n dest)) = (failbit f \<or> length (content f) < n)"
  by (auto simp: ifstream_read_def)

lemma content_read_failed:
  "failbit f \<Longrightarrow> fst (ifstream_read f n dest) = f"
  by (simp add: ifstream_read_def)

lemma length_floats_of_bytes: "length (floats_of_bytes f32 bs) = length bs div 4"
  by (induction f32 bs rule: floats_of_bytes.induct) simp_all

lemma sint_nonneg_small:
  assumes "unat (x::u32) < 2147483648" shows "\<not> sint x < 0"
  using sint_small [OF assms] by simp

lemma unat_mult_small:
  assumes "unat (a::u32) * unat (b::u32) < 2147483648"
  shows "unat (a * b) = unat a * unat b"
proof -
  have "unat a * unat b < 2 ^ LENGTH(32)" using assms by simp
  then show ?thesis by (simp only: unat_mult_lem)
qed

lemma Linear_load_no_truncation_error:
  "Linear_loadFromFile f32 junk file heap \<noteq> Inl TruncatedFileError"
  by (auto simp: Linear_loadFromFile_def Linear_new_def Tensor_new_def setWeights_def
      setBiases_def setData_def Let_def split: sum.splits if_splits prod.splits)

lemma SDN_load_no_truncation_error:
  "SDN_loadFromFile f32 junk file heap \<noteq> Inl TruncatedFileError"
  by (auto simp: SDN_loadFromFile_def FloatTensor_new_def FloatTensor_setData_def SDN_new_def
      Let_def split: sum.splits if_splits prod.splits)


lemma Linear_load_complete:
  fixes strm :: ifstream
  defines "bs \<equiv> content strm"
  defines "n_out \<equiv> int32_of_bytes (take 4 bs)"
      and "n_in \<equiv> int32_of_bytes (take 4 (drop 4 bs))"
  defines "nw \<equiv> unat n_out * unat n_in"
  assumes ok: "\<not> failbit strm"
      and pos: "1 \<le> unat n_out" "1 \<le> unat n_in"
      and small: "nw < 2147483648"
      and len: "8 + 4 * nw + 4 * unat n_out \<le> length bs"
  shows "Linear_loadFromFile f32 junk strm heap =
     Inr (\<lparr>Linear_n_inputs = n_in, Linear_n_outputs = n_out,
           Linear_output = Some \<lparr>storage = heap, tsize = [n_out],
                                   data = replicate (unat n_out) 0\<rparr>,
           Linear_weights = \<lparr>storage = Suc heap, tsize = [n_out, n_in],
                              data = floats_of_bytes f32 (take (4 * nw) (drop 8 bs))\<rparr>,
           Linear_biases = \<lparr>storage = Suc (Suc heap), tsize = [n_out],
                             data = floats_of_bytes f32
                                      (take (4 * unat n_out) (drop (8 + 4 * nw) bs))\<rparr>\<rparr>,
          strm\<lparr>content := drop (8 + 4 * nw + 4 * unat n_out) bs\<rparr>, Suc (Suc (Suc heap)))"
proof -
  define f1 where "f1 = strm\<lparr>content := drop 4 bs\<rparr>"
  define f2 where "f2 = strm\<lparr>content := drop 8 bs\<rparr>"
  define f3 where "f3 = strm\<lparr>content := drop (8 + 4 * nw) bs\<rparr>"
  define f4 where "f4 = strm\<lparr>content := drop (8 + 4 * nw + 4 * unat n_out) bs\<rparr>"
  have r1: "ifstream_read strm 4 (uninit junk 4) = (f1, take 4 bs)"
    using read_enough [of strm 4 junk] ok len by (simp add: f1_def bs_def)
  have r2: "ifstream_read f1 4 (uninit junk 4) = (f2, take 4 (drop 4 bs))"
    using read_enough [of f1 4 junk] ok len by (simp add: f1_def f2_def)
  have r3: "ifstream_read f2 (4 * nw) (uninit junk (4 * nw)) = (f3, take (4 * nw) (drop 8 bs))"
    using read_enough [of f2 "4 * nw" junk] ok len by (simp add: f2_def f3_def add.commute)
  have r4: "ifstream_read f3 (4 * unat n_out) (uninit junk (4 * unat n_out)) =
              (f4, take (4 * unat n_out) (drop (8 + 4 * nw) bs))"
    using read_enough [of f3 "4 * unat n_out" junk] ok len
    by (simp add: f3_def f4_def add.commute add.left_commute)
  have uw: "unat (n_out * n_in) = nw"
    unfolding nw_def using small by (intro unat_mult_small) (simp add: nw_def)
  have sw: "\<not> sint (n_out * n_in) < 0"
    using small uw by (intro sint_nonneg_small) simp
  have "unat n_out \<le> nw" unfolding nw_def using pos(2) by simp
  then have so: "\<not> sint n_out < 0"
    using small by (intro sint_nonneg_small) simp
  have lw: "length (floats_of_bytes f32 (take (4 * nw) (drop 8 bs))) = nw"
    using len by (simp add: length_floats_of_bytes)
  have lb: "length (floats_of_bytes f32 (take (4 * unat n_out) (drop (8 + 4 * nw) bs))) = unat n_out"
    using len by (simp add: length_floats_of_bytes)
  show ?thesis
    unfolding Linear_loadFromFile_def bs_def [symmetric] r1 Let_def fst_conv snd_conv
      n_out_def [symmetric] r2 n_in_def [symmetric]
    using pos sw so lw lb
    by (simp add: Linear_new_ok uw r3 r4 setWeights_def setBiases_def setData_def
        nw_def [symmetric] f4_def)
qed

lemma Linear_load_header_only:
  fixes strm :: ifstream
  defines "bs \<equiv> content strm"
  defines "n_out \<equiv> int32_of_bytes (take 4 bs)"
      and "n_in \<equiv> int32_of_bytes (take 4 (drop 4 bs))"
  defines "nw \<equiv> unat n_out * unat n_in"
  assumes ok: "\<not> failbit strm"
      and pos: "1 \<le> unat n_out" "1 \<le> unat n_in"
      and small: "nw < 2147483648"
      and len: "8 \<le> length bs"
  shows "\<exists>l f. Linear_loadFromFile f32 junk strm heap = Inr (l, f, Suc (Suc (Suc heap))) \<and>
           failbit f = (length bs < 8 + 4 * nw + 4 * unat n_out)"
proof -
  define f1 where "f1 = strm\<lparr>content := drop 4 bs\<rparr>"
  define f2 where "f2 = strm\<lparr>content := drop 8 bs\<rparr>"
  have r1: "ifstream_read strm 4 (uninit junk 4) = (f1, take 4 bs)"
    using read_enough [of strm 4 junk] ok len by (simp add: f1_def bs_def)
  have r2: "ifstream_read f1 4 (uninit junk 4) = (f2, take 4 (drop 4 bs))"
    using read_enough [of f1 4 junk] ok len by (simp add: f1_def f2_def)
  define r3 where "r3 = ifstream_read f2 (4 * nw) (uninit junk (4 * nw))"
  define r4 where "r4 = ifstream_read (fst r3) (4 * unat n_out) (uninit junk (4 * unat n_out))"
  have uw: "unat (n_out * n_in) = nw"
    unfolding nw_def using small by (intro unat_mult_small) (simp add: nw_def)
  have sw: "\<not> sint (n_out * n_in) < 0"
    using small uw by (intro sint_nonneg_small) simp
  have "unat n_out \<le> nw" unfolding nw_def using pos(2) by simp
  then have so: "\<not> sint n_out < 0"
    using small by (intro sint_nonneg_small) simp
  have "length (snd r3) = 4 * nw"
    unfolding r3_def by (rule length_read) (rule length_uninit)
  then have lw: "length (floats_of_bytes f32 (snd r3)) = nw"
    by (simp add: length_floats_of_bytes)
  have "length (snd r4) = 4 * unat n_out"
    unfolding r4_def by (rule length_read) (rule length_uninit)
  then have lb: "length (floats_of_bytes f32 (snd r4)) = unat n_out"
    by (simp add: length_floats_of_bytes)
  have f3: "failbit (fst r3) = (length bs < 8 + 4 * nw)"
    unfolding r3_def failbit_read using ok len by (auto simp: f2_def)
  have c3: "\<not> failbit (fst r3) \<Longrightarrow> content (fst r3) = drop (8 + 4 * nw) bs"
    using f3 ok unfolding r3_def by (auto simp: ifstream_read_def f2_def add.commute)
  have f4: "failbit (fst r4) = (length bs < 8 + 4 * nw + 4 * unat n_out)"
    unfolding r4_def failbit_read using f3 c3 by (cases "failbit (fst r3)") auto
  have "Linear_loadFromFile f32 junk strm heap =
          Inr (\<lparr>Linear_n_inputs = n_in, Linear_n_outputs = n_out,
           Linear_output = Some \<lparr>storage = heap, tsize = [n_out],
                                   data = replicate (unat n_out) 0\<rparr>,
           Linear_weights = \<lparr>storage = Suc heap, tsize = [n_out, n_in],
                              data = floats_of_bytes f32 (snd r3)\<rparr>,
           Linear_biases = \<lparr>storage = Suc (Suc heap), tsize = [n_out],
                             data = floats_of_bytes f32 (snd r4)\<rparr>\<rparr>, fst r4, Suc (Suc (Suc heap)))"
    unfolding Linear_loadFromFile_def bs_def [symmetric] r1 Let_def fst_conv snd_conv
      n_out_def [symmetric] r2 n_in_def [symmetric]
    using pos sw so lw lb
    by (simp add: Linear_new_ok uw r3_def [symmetric] r4_def [symmetric]
        setWeights_def setBiases_def setData_def nw_def [symmetric])
  then show ?thesis using f4 by blast
qed

lemma SDN_load_complete:
  fixes strm :: ifstream
  defines "bs \<equiv> content strm"
  defines "k1 \<equiv> sint (int32_of_bytes (take 4 bs))"
      and "k2 \<equiv> sint (int32_of_bytes (take 4 (drop 4 bs)))"
  defines "d \<equiv> (if 1 < k2 then (k1, k2, 1) else (k1, 1, 1))"
  defines "cnt \<equiv> nat (fst d * fst (snd d))"
  assumes ok: "\<not> failbit strm"
      and k1: "0 < k1" "odd k1"
      and k2: "k2 \<le> 1 \<or> odd k2"
      and len: "12 + 4 * cnt \<le> length bs"
  shows "SDN_loadFromFile f32 junk strm heap =
     Inr (\<lparr>SDN_output = None,
           SDN_kernel = Some \<lparr>buf = Suc heap, dims = d,
                               vals = floats_of_bytes f32 (take (4 * cnt) (drop 8 bs))\<rparr>,
           SDN_kernel_norm = None, SDN_std_coef = None, SDN_std_pass1 = None,
           SDN_std_pass2 = None, SDN_std = None,
           SDN_threshold = f32 (int32_of_bytes (take 4 (drop (8 + 4 * cnt) bs)))\<rparr>,
          strm\<lparr>content := drop (12 + 4 * cnt) bs\<rparr>, Suc (Suc heap))"
proof -
  define f1 where "f1 = strm\<lparr>content := drop 4 bs\<rparr>"
  define f2 where "f2 = strm\<lparr>content := drop 8 bs\<rparr>"
  define f3 where "f3 = strm\<lparr>content := drop (8 + 4 * cnt) bs\<rparr>"
  define f4 where "f4 = strm\<lparr>content := drop (12 + 4 * cnt) bs\<rparr>"
  have r1: "ifstream_read strm 4 (uninit junk 4) = (f1, take 4 bs)"
    using read_enough [of strm 4 junk] ok len by (simp add: f1_def bs_def)
  have r2: "ifstream_read f1 4 (uninit junk 4) = (f2, take 4 (drop 4 bs))"
    using read_enough [of f1 4 junk] ok len by (simp add: f1_def f2_def)
  have r3: "ifstream_read f2 (4 * cnt) (uninit junk (4 * cnt)) = (f3, take (4 * cnt) (drop 8 bs))"
    using read_enough [of f2 "4 * cnt" junk] ok len by (simp add: f2_def f3_def add.commute)
  have r4: "ifstream_read f3 4 (uninit junk 4) = (f4, take 4 (drop (8 + 4 * cnt) bs))"
    using read_enough [of f3 4 junk] ok len
    by (simp add: f3_def f4_def add.commute add.left_commute)
  have dpos: "0 < fst d" "0 < fst (snd d)" "snd (snd d) = 1"
    using k1(1) by (simp_all add: d_def)
  have dodd: "odd (fst d)" "odd (fst (snd d))"
    using k1(2) k2 by (auto simp: d_def)
  define kern where "kern = \<lparr>buf = heap, dims = d, vals = replicate cnt (0::real)\<rparr>"
  have new: "FloatTensor_new heap d = Inr (kern, Suc heap)"
    using dpos by (simp add: FloatTensor_new_def kern_def cnt_def)
  have ds: "nat (dataSize kern) = cnt"
    using dpos by (simp add: dataSize_def kern_def cnt_def)
  have lf: "length (floats_of_bytes f32 (take (4 * cnt) (drop 8 bs))) = cnt"
    using len by (simp add: length_floats_of_bytes)
  define kern' where "kern' = kern\<lparr>vals := floats_of_bytes f32 (take (4 * cnt) (drop 8 bs))\<rparr>"
  have sd: "FloatTensor_setData kern (floats_of_bytes f32 (take (4 * cnt) (drop 8 bs))) = Inr kern'"
    using lf by (simp add: FloatTensor_setData_def kern_def kern'_def)
  have sn: "SDN_new kern' th (Suc heap) =
     Inr (\<lparr>SDN_output = None, SDN_kernel = Some (kern'\<lparr>buf := Suc heap\<rparr>),
           SDN_kernel_norm = None, SDN_std_coef = None, SDN_std_pass1 = None,
           SDN_std_pass2 = None, SDN_std = None, SDN_threshold = th\<rparr>, Suc (Suc heap))" for th
    using dodd dpos(3) by (intro SDN_new_success) (simp_all add: kern'_def kern_def)
  have "SDN_loadFromFile f32 junk strm heap =
     Inr (\<lparr>SDN_output = None, SDN_kernel = Some (kern'\<lparr>buf := Suc heap\<rparr>),
           SDN_kernel_norm = None, SDN_std_coef = None, SDN_std_pass1 = None,
           SDN_std_pass2 = None, SDN_std = None,
           SDN_threshold = f32 (int32_of_bytes (take 4 (drop (8 + 4 * cnt) bs)))\<rparr>,
          f4, Suc (Suc heap))"
    unfolding SDN_loadFromFile_def bs_def [symmetric] r1 Let_def fst_conv snd_conv
      k1_def [symmetric] r2 k2_def [symmetric] d_def [symmetric] new
    by (simp add: ds r3 sd r4 sn)
  then show ?thesis by (simp add: kern'_def kern_def f4_def)
qed

lemma SDN_load_complete_example:
  "SDN_loadFromFile pattern_value zero_bytes sdn_file 0 =
     Inr (\<lparr>SDN_output = None, SDN_kernel = Some \<lparr>buf = 1, dims = (1, 1, 1), vals = [3]\<rparr>,
           SDN_kernel_norm = None, SDN_std_coef = None, SDN_std_pass1 = None,
           SDN_std_pass2 = None, SDN_std = None, SDN_threshold = 4\<rparr>,
          \<lparr>content = [], failbit = False\<rparr>, 2)"
proof -
  have a: "int32_of_bytes (take 4 (content sdn_file)) = 1"
      "int32_of_bytes (take 4 (drop 4 (content sdn_file))) = 1"
    by (simp_all add: sdn_file_def int32_of_bytes_def)
  show ?thesis
    using SDN_load_complete [of sdn_file pattern_value zero_bytes 0] a
    by (simp add: sdn_file_def int32_of_bytes_def pattern_value_def)
qed

text \<open>
  C2 (as amended).  The loaders do not test the stream after a read, and neither ever
  fails with \<open>TruncatedFileError\<close>.  For a Linear model file whose eight bytes of header
  are there and declare positive counts with a product below \<open>2^31\<close>,
  \<open>Linear::loadFromFile\<close> returns a constructed stage however many of the declared
  bytes follow; the stream it leaves has its fail state set exactly when the file is
  shorter than declared; and when the file holds every declared byte the stage carries
  exactly the file's weights and biases and the stream stands after the record.
\<close>

theorem loadFromFile_never_reports_truncation:
  assumes "\<not> failbit strm"
      and "n_out = int32_of_bytes (take 4 (content strm))"
      and "n_in = int32_of_bytes (take 4 (drop 4 (content strm)))"
      and "1 \<le> unat n_out" and "1 \<le> unat n_in"
      and "unat n_out * unat n_in < 2147483648"
      and "8 \<le> length (content strm)"
      and "declared = 8 + 4 * (unat n_out * unat n_in) + 4 * unat n_out"
  shows "(\<exists>l f. Linear_loadFromFile f32 junk strm heap = Inr (l, f, Suc (Suc (Suc heap))) \<and>
            failbit f = (length (content strm) < declared) \<and>
            (declared \<le> length (content strm) \<longrightarrow>
               content f = drop declared (content strm) \<and>
               Linear_n_outputs l = n_out \<and> Linear_n_inputs l = n_in \<and>
               data (Linear_weights l) =
                 floats_of_bytes f32 (take (4 * (unat n_out * unat n_in)) (drop 8 (content strm))) \<and>
               data (Linear_biases l) =
                 floats_of_bytes f32 (take (4 * unat n_out)
                   (drop (8 + 4 * (unat n_out * unat n_in)) (content strm))))) \<and>
         Linear_loadFromFile f32' junk' strm' heap' \<noteq> Inl TruncatedFileError \<and>
         SDN_loadFromFile f32' junk' strm' heap' \<noteq> Inl TruncatedFileError"
proof -
  have a: "\<exists>l f. Linear_loadFromFile f32 junk strm heap = Inr (l, f, Suc (Suc (Suc heap))) \<and>
            failbit f = (length (content strm) < declared) \<and>
            (declared \<le> length (content strm) \<longrightarrow>
               content f = drop declared (content strm) \<and>
               Linear_n_outputs l = n_out \<and> Linear_n_inputs l = n_in \<and>
               data (Linear_weights l) =
                 floats_of_bytes f32 (take (4 * (unat n_out * unat n_in)) (drop 8 (content strm))) \<and>
               data (Linear_biases l) =
                 floats_of_bytes f32 (take (4 * unat n_out)
                   (drop (8 + 4 * (unat n_out * unat n_in)) (content strm))))"
  proof (cases "declared \<le> length (content strm)")
    case True
    show ?thesis
      using Linear_load_complete [of strm, OF assms(1), of f32 junk heap] True assms
      by simp
  next
    case False
    show ?thesis
      using Linear_load_header_only [of strm, OF assms(1), of f32 junk heap] False assms
      by simp
  qed
  show ?thesis
    using a Linear_load_no_truncation_error [of f32' junk' strm' heap']
      SDN_load_no_truncation_error [of f32' junk' strm' heap']
    by blast
qed

theorem loadFromFile_never_reports_truncation_witness:
  "(\<exists>l f. Linear_loadFromFile pattern_value zero_bytes linear_file 0 = Inr (l, f, 3) \<and>
      \<not> failbit f \<and> content f = [9] \<and>
      data (Linear_weights l) = [5, 6] \<and> data (Linear_biases l) = [7, 8]) \<and>
   (\<exists>l f. Linear_loadFromFile pattern_value zero_bytes truncated_file 0 = Inr (l, f, 3) \<and>
      failbit f)"
proof -
  have a: "int32_of_bytes (take 4 (content linear_file)) = 2"
      "int32_of_bytes (take 4 (drop 4 (content linear_file))) = 1"
      "int32_of_bytes (take 4 (content truncated_file)) = 1"
      "int32_of_bytes (take 4 (drop 4 (content truncated_file))) = 1"
    by (simp_all add: linear_file_def truncated_file_def int32_of_bytes_def)
  have "\<exists>l f. Linear_loadFromFile pattern_value zero_bytes linear_file 0 = Inr (l, f, 3) \<and>
      \<not> failbit f \<and> content f = [9] \<and>
      data (Linear_weights l) = [5, 6] \<and> data (Linear_biases l) = [7, 8]"
    using loadFromFile_never_reports_truncation
            [of linear_file 2 1 24 pattern_value zero_bytes 0
               pattern_value zero_bytes linear_file 0] a
    by (auto simp add: linear_file_def int32_of_bytes_def numeral_3_eq_3 pattern_value_def)
  moreover
  have "\<exists>l f. Linear_loadFromFile pattern_value zero_bytes truncated_file 0 = Inr (l, f, 3) \<and>
      failbit f"
    using loadFromFile_never_reports_truncation
            [of truncated_file 1 1 16 pattern_value zero_bytes 0
               pattern_value zero_bytes linear_file 0] a
    by (auto simp add: truncated_file_def numeral_3_eq_3)
  ultimately show ?thesis by blast
qed

text \<open>
  C2 as stated fails: the file that ends after the header of a Linear stage of one
  output and one input holds none of the eight bytes of weights and biases it declares,
  and \<open>Linear::loadFromFile\<close> returns a stage, its weight and bias read from the
  unwritten arrays, and a stream whose fail state is set.
\<close>

theorem loadFromFile_truncated_counterexample:
  "Linear_loadFromFile pattern_value zero_bytes truncated_file 0 =
     Inr (\<lparr>Linear_n_inputs = 1, Linear_n_outputs = 1,
           Linear_output = Some \<lparr>storage = 0, tsize = [1], data = [0]\<rparr>,
           Linear_weights = \<lparr>storage = 1, tsize = [1, 1], data = [0]\<rparr>,
           Linear_biases = \<lparr>storage = 2, tsize = [1], data = [0]\<rparr>\<rparr>,
          \<lparr>content = [], failbit = True\<rparr>, 3)"
  by (simp add: Linear_loadFromFile_def ifstream_read_def uninit_def
      int32_of_bytes_def Linear_new_def Tensor_new_def setWeights_def setBiases_def setData_def
      Let_def upt_rec truncated_file_def zero_bytes_def pattern_value_def)

text \<open>
  The normalization loader does the same on a file cut inside the kernel: the kernel's
  element is completed from the unwritten array, the threshold is the unwritten local.
\<close>

lemma SDN_load_truncated_example:
  "SDN_loadFromFile pattern_value zero_bytes sdn_file_truncated 0 =
     Inr (\<lparr>SDN_output = None, SDN_kernel = Some \<lparr>buf = 1, dims = (1, 1, 1), vals = [3]\<rparr>,
           SDN_kernel_norm = None, SDN_std_coef = None, SDN_std_pass1 = None,
           SDN_std_pass2 = None, SDN_std = None, SDN_threshold = 0\<rparr>,
          \<lparr>content = [], failbit = True\<rparr>, 2)"
  by (simp add: SDN_loadFromFile_def ifstream_read_def uninit_def int32_of_bytes_def
      Let_def upt_rec sdn_file_truncated_def zero_bytes_def pattern_value_def FloatTensor_new_def
      FloatTensor_setData_def dataSize_def SDN_new_def c_rem_def c_div_def clone_def)

section \<open>When the output is allocated\<close>

text \<open>
  C7 (as amended).  A SpatialDivisiveNormalization stage has no output from
  construction until its first forward call: the constructor leaves \<open>output\<close> null, and
  the first \<open>init\<close>, on an input of positive extents, allocates it, in a fresh buffer,
  with the input's extents.  A Linear stage, whose output shape is fixed by
  \<open>n_outputs\<close>, has its output allocated by its constructor.
\<close>

theorem output_allocation:
  "(SDN_new K th heap = Inr (s, heap1) \<longrightarrow> SDN_output s = None) \<and>
   (SDN_new K th heap = Inr (s, heap1) \<and>
    0 < fst (dims inp) \<and> 0 < fst (snd (dims inp)) \<and> 0 < snd (snd (dims inp)) \<longrightarrow>
      (\<exists>st' out. SDN_init (FloatTensorData inp) (s, heap1) = Inr st' \<and>
         SDN_output (fst st') = Some out \<and> buf out = heap1 \<and> dims out = dims inp)) \<and>
   (Linear_new n_in n_out heap2 = Inr (l, heap3) \<longrightarrow>
      (\<exists>out. Linear_output l = Some out \<and> storage out = heap2 \<and> tsize out = [n_out]))"
proof (intro conjI impI)
  assume "SDN_new K th heap = Inr (s, heap1)"
  from SDN_new_Inr [OF this] show "SDN_output s = None" by simp
next
  assume a: "SDN_new K th heap = Inr (s, heap1) \<and>
    0 < fst (dims inp) \<and> 0 < fst (snd (dims inp)) \<and> 0 < snd (snd (dims inp))"
  then have "\<exists>out p1 p2 kn sc sd.
           SDN_init (FloatTensorData inp) (s, heap1) =
             Inr (\<lparr>SDN_output = Some out, SDN_kernel = Some (K\<lparr>buf := heap\<rparr>),
                   SDN_kernel_norm = Some kn, SDN_std_coef = Some sc, SDN_std_pass1 = Some p1,
                   SDN_std_pass2 = Some p2, SDN_std = Some sd, SDN_threshold = th\<rparr>, heap1 + 6) \<and>
           buf out = heap1 \<and> dims out = dims inp"
    using SDN_first_init [of K th heap s heap1 inp] by blast
  then show "\<exists>st' out. SDN_init (FloatTensorData inp) (s, heap1) = Inr st' \<and>
         SDN_output (fst st') = Some out \<and> buf out = heap1 \<and> dims out = dims inp"
    by auto
next
  assume "Linear_new n_in n_out heap2 = Inr (l, heap3)"
  from Linear_new_Inr [OF this]
  show "\<exists>out. Linear_output l = Some out \<and> storage out = heap2 \<and> tsize out = [n_out]"
    by simp
qed

theorem output_allocation_witness:
  "(\<exists>s. SDN_new kernel_3 0 5 = Inr (s, 6) \<and> SDN_output s = None \<and>
      (\<exists>st' out. SDN_init (FloatTensorData image_2x2) (s, 6) = Inr st' \<and>
         SDN_output (fst st') = Some out \<and> buf out = 6 \<and> dims out = (2, 2, 1))) \<and>
   (\<exists>l out. Linear_new 3 1 0 = Inr (l, 3) \<and> Linear_output l = Some out \<and> storage out = 0)"
  using output_allocation [of kernel_3 0 5 _ 6 image_2x2 3 1 0 _ 3] kernel_3_new linear_3_1_new
  by (simp add: image_2x2_def)

text \<open>
  C7 as stated fails: right after construction, before any forward call, the output of
  a Linear stage of two inputs and three outputs is an allocated tensor of three zeros.
\<close>

theorem Linear_output_at_construction_counterexample:
  "Linear_new 2 3 0 =
     Inr (\<lparr>Linear_n_inputs = 2, Linear_n_outputs = 3,
           Linear_output = Some \<lparr>storage = 0, tsize = [3], data = [0, 0, 0]\<rparr>,
           Linear_weights = \<lparr>storage = 1, tsize = [3, 2], data = [0, 0, 0, 0, 0, 0]\<rparr>,
           Linear_biases = \<lparr>storage = 2, tsize = [3], data = [0, 0, 0]\<rparr>\<rparr>, 3)"
proof -
  have "replicate 3 (0::real) = [0, 0, 0]" "replicate 6 (0::real) = [0, 0, 0, 0, 0, 0]"
    by (simp_all add: numeral_3_eq_3 eval_nat_numeral)
  then show ?thesis by (simp add: Linear_new_def Tensor_new_def)
qed

end
